theory Spec2Isabelle
  imports Main "HOL-Library.Sublist"
begin

section \<open>Data model\<close>

subsection \<open>Time\<close>

text \<open>
  The source works with naive \<^verbatim>\<open>datetime\<close> values. A naive datetime is a position on
  a linear time line with microsecond resolution; comparison and subtraction of two
  datetimes are comparison and subtraction of these positions. A \<open>datetime\<close> is the
  number of microseconds since midnight of day 0, and a \<open>time\<close> (time of day) the
  number of microseconds since midnight.
\<close>

type_synonym datetime = int
type_synonym time = int

definition us_per_second :: int where
  "us_per_second = 1000000"

definition us_per_hour :: int where
  "us_per_hour = 3600 * us_per_second"

definition us_per_day :: int where
  "us_per_day = 24 * us_per_hour"

text \<open>\<^verbatim>\<open>datetime.time()\<close> and \<^verbatim>\<open>datetime.date()\<close> (the latter as a day number).\<close>

definition time_of :: "datetime \<Rightarrow> time" where
  "time_of d = d mod us_per_day"

definition date_of :: "datetime \<Rightarrow> int" where
  "date_of d = d div us_per_day"

text \<open>\<^verbatim>\<open>time(h, m)\<close>.\<close>

definition mk_time :: "int \<Rightarrow> int \<Rightarrow> time" where
  "mk_time h m = h * us_per_hour + m * 60 * us_per_second"

subsection \<open>Rooms (models/room.py, models/room\_types.py)\<close>

text \<open>
  The abstract class \<^verbatim>\<open>Room\<close> holds \<open>room_id\<close>, \<open>name\<close> and \<open>capacity\<close>; each of
  the four concrete classes adds two attributes of its own. The class of a room object
  is the constructor of the datatype.
\<close>

datatype room =
    Classroom (room_id: string) (name: string) (capacity: int)
      (has_projector: bool) (whiteboard: bool)
  | ConferenceRoom (room_id: string) (name: string) (capacity: int)
      (video_conference: bool) (sound_system: bool)
  | Laboratory (room_id: string) (name: string) (capacity: int)
      (lab_type: string) (safety_equipment: bool)
  | ComputerLab (room_id: string) (name: string) (capacity: int)
      (num_computers: int) (has_printer: bool)

text \<open>
  The constructors as the source calls them with three positional arguments, every
  keyword argument at its default. \<^verbatim>\<open>ComputerLab.__init__\<close> replaces a computer
  count that is not positive by the capacity.
\<close>

definition new_Classroom :: "string \<Rightarrow> string \<Rightarrow> int \<Rightarrow> room" where
  "new_Classroom rid nm cap = Classroom rid nm cap True True"

definition new_ConferenceRoom :: "string \<Rightarrow> string \<Rightarrow> int \<Rightarrow> room" where
  "new_ConferenceRoom rid nm cap = ConferenceRoom rid nm cap True True"

definition new_Laboratory :: "string \<Rightarrow> string \<Rightarrow> int \<Rightarrow> room" where
  "new_Laboratory rid nm cap = Laboratory rid nm cap ''General'' True"

definition init_ComputerLab :: "string \<Rightarrow> string \<Rightarrow> int \<Rightarrow> int \<Rightarrow> bool \<Rightarrow> room" where
  "init_ComputerLab rid nm cap n p = ComputerLab rid nm cap (if n > 0 then n else cap) p"

definition new_ComputerLab :: "string \<Rightarrow> string \<Rightarrow> int \<Rightarrow> room" where
  "new_ComputerLab rid nm cap = init_ComputerLab rid nm cap 0 True"

text \<open>The values of an equipment dictionary: booleans, counts and descriptive strings.\<close>

datatype equip_value = EBool bool | EInt int | EStr string

fun get_equipment :: "room \<Rightarrow> (string \<times> equip_value) list" where
  "get_equipment (Classroom _ _ _ p w) =
     [(''projector'', EBool p), (''whiteboard'', EBool w), (''desks'', EBool True)]"
| "get_equipment (ConferenceRoom _ _ _ v s) =
     [(''video_conference'', EBool v), (''sound_system'', EBool s),
      (''projector'', EBool True), (''conference_table'', EBool True)]"
| "get_equipment (Laboratory _ _ _ t s) =
     [(''lab_type'', EStr t), (''safety_equipment'', EBool s),
      (''workbenches'', EBool True), (''storage'', EBool True)]"
| "get_equipment (ComputerLab _ _ _ n p) =
     [(''computers'', EInt n), (''printer'', EBool p), (''network'', EBool True)]"

fun get_room_type :: "room \<Rightarrow> string" where
  "get_room_type (Classroom _ _ _ _ _) = ''Classroom''"
| "get_room_type (ConferenceRoom _ _ _ _ _) = ''Conference Room''"
| "get_room_type (Laboratory _ _ _ t _) = ''Laboratory ('' @ t @ '')''"
| "get_room_type (ComputerLab _ _ _ _ _) = ''Computer Lab''"

text \<open>The class of a room object, for statements about which variant a room is.\<close>

datatype room_class = ClassroomC | ConferenceRoomC | LaboratoryC | ComputerLabC

fun class_of :: "room \<Rightarrow> room_class" where
  "class_of (Classroom _ _ _ _ _) = ClassroomC"
| "class_of (ConferenceRoom _ _ _ _ _) = ConferenceRoomC"
| "class_of (Laboratory _ _ _ _ _) = LaboratoryC"
| "class_of (ComputerLab _ _ _ _ _) = ComputerLabC"

subsection \<open>Reservations\<close>

text \<open>
  Modelled from the spec: \<^verbatim>\<open>models/reservation.py\<close> (the class \<^verbatim>\<open>Reservation\<close>) is not
  among the sources. Section 4.2 of the specification describes it as a plain record
  with two behaviours; section 3 lists its fields, which are also the attributes the
  repositories, the service and the notifiers read. The status is a string, as the
  repositories and the service compare it with \<^verbatim>\<open>"CANCELLED"\<close> and the file
  repository assigns it whatever text the file holds.
\<close>

record reservation =
  reservation_id :: string
  room :: room
  user_name :: string
  start_time :: datetime
  end_time :: datetime
  purpose :: string
  status :: string

text \<open>
  Modelled from the spec: the constructor of the absent class. ``Construct(id, room,
  user_name, start, end, purpose) gives a reservation in CONFIRMED state. Does not itself
  validate start < end'' (section 4.2; \<^verbatim>\<open>test_reservation_creation\<close> in \<^verbatim>\<open>tests.py\<close>
  asserts the status).
\<close>

definition Reservation ::
  "string \<Rightarrow> room \<Rightarrow> string \<Rightarrow> datetime \<Rightarrow> datetime \<Rightarrow> string \<Rightarrow> reservation" where
  "Reservation rid rm un st en pu =
     \<lparr>reservation_id = rid, room = rm, user_name = un, start_time = st, end_time = en,
      purpose = pu, status = ''CONFIRMED''\<rparr>"

text \<open>
  Modelled from the spec: the method \<^verbatim>\<open>overlaps_with\<close> of the absent class, ``pure
  function implementing the half-open-interval overlap rule'' \<open>start_A < end_B AND
  start_B < end_A\<close>, ``independent of this reservation's own status'' (sections 3 and
  4.2).
\<close>

definition overlaps_with :: "reservation \<Rightarrow> datetime \<Rightarrow> datetime \<Rightarrow> bool" where
  "overlaps_with r s e \<longleftrightarrow> start_time r < e \<and> s < end_time r"

text \<open>
  Modelled from the spec: the method \<^verbatim>\<open>cancel\<close> of the absent class, which
  ``unconditionally sets status to CANCELLED'' and has no other effect (section 4.2;
  \<^verbatim>\<open>test_reservation_cancellation\<close> in \<^verbatim>\<open>tests.py\<close> asserts the status).
\<close>

definition cancel :: "reservation \<Rightarrow> reservation" where
  "cancel r = r\<lparr>status := ''CANCELLED''\<rparr>"

section \<open>Repositories\<close>

subsection \<open>The loops both repositories share\<close>

text \<open>
  \<^verbatim>\<open>find_by_room_and_time\<close> has the same loop in both classes: it walks the stored
  reservations and appends to \<^verbatim>\<open>overlapping\<close> those of the room (by \<open>room_id\<close>) that
  overlap the range and are not cancelled.
\<close>

fun overlapping_loop ::
  "room \<Rightarrow> datetime \<Rightarrow> datetime \<Rightarrow> reservation list \<Rightarrow> reservation list \<Rightarrow> reservation list" where
  "overlapping_loop rm s e [] overlapping = overlapping"
| "overlapping_loop rm s e (r # rs) overlapping =
     overlapping_loop rm s e rs
       (if room_id (room r) = room_id rm \<and> overlaps_with r s e \<and> status r \<noteq> ''CANCELLED''
        then overlapping @ [r] else overlapping)"

subsection \<open>InMemoryRepository (repositories/in\_memory\_repository.py)\<close>

text \<open>
  The state is the dictionary \<^verbatim>\<open>_reservations\<close>. A Python dictionary keeps its keys in
  insertion order: assigning to a key that is present keeps its place, assigning to a
  new key appends, \<^verbatim>\<open>del\<close> removes the entry. It is an association list here, so that
  the order of \<^verbatim>\<open>values()\<close> is the one the program has; the states a dictionary can be
  in are the lists with distinct keys. The dictionary holds references to reservation
  objects; the one place where the code modelled here changes a reservation object is
  \<^verbatim>\<open>cancel_reservation\<close>, where the sharing is accounted for.
\<close>

type_synonym in_memory = "(string \<times> reservation) list"

fun dict_set :: "string \<Rightarrow> reservation \<Rightarrow> in_memory \<Rightarrow> in_memory" where
  "dict_set k v [] = [(k, v)]"
| "dict_set k v (p # ps) = (if fst p = k then (k, v) # ps else p # dict_set k v ps)"

fun dict_get :: "in_memory \<Rightarrow> string \<Rightarrow> reservation option" where
  "dict_get [] k = None"
| "dict_get (p # ps) k = (if fst p = k then Some (snd p) else dict_get ps k)"

definition dict_contains :: "in_memory \<Rightarrow> string \<Rightarrow> bool" where
  "dict_contains d k \<longleftrightarrow> k \<in> fst ` set d"

definition dict_del :: "string \<Rightarrow> in_memory \<Rightarrow> in_memory" where
  "dict_del k d = filter (\<lambda>p. fst p \<noteq> k) d"

definition dict_values :: "in_memory \<Rightarrow> reservation list" where
  "dict_values d = map snd d"

definition InMemoryRepository_init :: in_memory where
  "InMemoryRepository_init = []"

text \<open>
  \<^verbatim>\<open>save\<close>: the dictionary assignment cannot raise for a string key, so the
  \<^verbatim>\<open>except\<close> branch is never taken.
\<close>

definition InMemoryRepository_save :: "reservation \<Rightarrow> in_memory \<Rightarrow> bool \<times> in_memory" where
  "InMemoryRepository_save r d = (True, dict_set (reservation_id r) r d)"

definition InMemoryRepository_find_by_id :: "string \<Rightarrow> in_memory \<Rightarrow> reservation option" where
  "InMemoryRepository_find_by_id rid d = dict_get d rid"

definition InMemoryRepository_find_by_room_and_time ::
  "room \<Rightarrow> datetime \<Rightarrow> datetime \<Rightarrow> in_memory \<Rightarrow> reservation list" where
  "InMemoryRepository_find_by_room_and_time rm s e d =
     overlapping_loop rm s e (dict_values d) []"

definition InMemoryRepository_find_all :: "in_memory \<Rightarrow> reservation list" where
  "InMemoryRepository_find_all d = dict_values d"

definition InMemoryRepository_delete :: "string \<Rightarrow> in_memory \<Rightarrow> bool \<times> in_memory" where
  "InMemoryRepository_delete rid d =
     (if dict_contains d rid then (True, dict_del rid d) else (False, d))"

subsection \<open>FileRepository (repositories/file\_repository.py)\<close>

text \<open>
  What the JSON file holds. A timestamp text is either the ISO-8601 rendering of an
  instant, which \<^verbatim>\<open>datetime.fromisoformat\<close> reads back as that instant
  (\<^verbatim>\<open>fromisoformat(d.isoformat()) == d\<close> is the standard library's contract), or a
  text that \<^verbatim>\<open>fromisoformat\<close> rejects with an exception.
\<close>

datatype iso_text = IsoText datetime | NotIso string

definition isoformat :: "datetime \<Rightarrow> iso_text" where
  "isoformat d = IsoText d"

fun fromisoformat :: "iso_text \<Rightarrow> datetime option" where
  "fromisoformat (IsoText d) = Some d"
| "fromisoformat (NotIso _) = None"

record json_room =
  jr_type :: string
  jr_room_id :: string
  jr_name :: string
  jr_capacity :: int
  jr_equipment :: "(string \<times> equip_value) list"

text \<open>
  One record of the file. The keys \<^verbatim>\<open>purpose\<close> and \<^verbatim>\<open>status\<close> may be missing: the
  loader reads them with \<^verbatim>\<open>item.get\<close> and a default.
\<close>

record json_item =
  ji_reservation_id :: string
  ji_room :: json_room
  ji_user_name :: string
  ji_start_time :: iso_text
  ji_end_time :: iso_text
  ji_purpose :: "string option"
  ji_status :: "string option"

text \<open>
  The backing file: absent, present with a content that cannot be read as a list of
  such records (an I/O error on reading, a text that is not JSON, a JSON value of
  another shape or with a required key missing), or a list of records.
\<close>

datatype file_content = NoFile | Unreadable | Records "json_item list"

text \<open>\<^verbatim>\<open>_ensure_file_exists\<close>, then the constructor.\<close>

definition ensure_file_exists :: "file_content \<Rightarrow> file_content" where
  "ensure_file_exists f = (if f = NoFile then Records [] else f)"

definition FileRepository_init :: "file_content \<Rightarrow> file_content" where
  "FileRepository_init f = ensure_file_exists f"

text \<open>Python's \<^verbatim>\<open>needle in haystack\<close> on strings: a contiguous occurrence.\<close>

fun is_substring :: "string \<Rightarrow> string \<Rightarrow> bool" where
  "is_substring needle [] \<longleftrightarrow> needle = []"
| "is_substring needle (c # cs) \<longleftrightarrow> prefix needle (c # cs) \<or> is_substring needle cs"

definition serialize_room :: "room \<Rightarrow> json_room" where
  "serialize_room rm =
     \<lparr>jr_type = get_room_type rm, jr_room_id = room_id rm, jr_name = name rm,
      jr_capacity = capacity rm, jr_equipment = get_equipment rm\<rparr>"

definition deserialize_room :: "json_room \<Rightarrow> room" where
  "deserialize_room data =
     (let room_type = jr_type data in
      if is_substring ''Classroom'' room_type then
        new_Classroom (jr_room_id data) (jr_name data) (jr_capacity data)
      else if is_substring ''Conference'' room_type then
        new_ConferenceRoom (jr_room_id data) (jr_name data) (jr_capacity data)
      else if is_substring ''Computer'' room_type then
        new_ComputerLab (jr_room_id data) (jr_name data) (jr_capacity data)
      else
        new_Laboratory (jr_room_id data) (jr_name data) (jr_capacity data))"

text \<open>
  The body of the loop of \<^verbatim>\<open>_load_reservations\<close> for one record; \<open>None\<close> when it
  raises (a timestamp that does not parse).
\<close>

definition load_item :: "json_item \<Rightarrow> reservation option" where
  "load_item item =
     (case fromisoformat (ji_start_time item) of
        None \<Rightarrow> None
      | Some st \<Rightarrow>
          (case fromisoformat (ji_end_time item) of
             None \<Rightarrow> None
           | Some en \<Rightarrow>
               Some ((Reservation (ji_reservation_id item) (deserialize_room (ji_room item))
                        (ji_user_name item) st en
                        (case ji_purpose item of None \<Rightarrow> [] | Some p \<Rightarrow> p))
                     \<lparr>status := (case ji_status item of None \<Rightarrow> ''CONFIRMED'' | Some s \<Rightarrow> s)\<rparr>)))"

fun load_loop :: "json_item list \<Rightarrow> reservation list \<Rightarrow> reservation list option" where
  "load_loop [] reservations = Some reservations"
| "load_loop (item # data) reservations =
     (case load_item item of
        None \<Rightarrow> None
      | Some r \<Rightarrow> load_loop data (reservations @ [r]))"

text \<open>
  \<^verbatim>\<open>_load_reservations\<close>: every exception, from opening the file to the last record,
  is caught, reported on the console and answered with the empty list.
\<close>

definition load_reservations :: "file_content \<Rightarrow> reservation list" where
  "load_reservations f =
     (case f of
        Records data \<Rightarrow> (case load_loop data [] of Some rs \<Rightarrow> rs | None \<Rightarrow> [])
      | _ \<Rightarrow> [])"

definition serialize_reservation :: "reservation \<Rightarrow> json_item" where
  "serialize_reservation r =
     \<lparr>ji_reservation_id = reservation_id r, ji_room = serialize_room (room r),
      ji_user_name = user_name r, ji_start_time = isoformat (start_time r),
      ji_end_time = isoformat (end_time r), ji_purpose = Some (purpose r),
      ji_status = Some (status r)\<rparr>"

text \<open>
  \<^verbatim>\<open>_save_reservations\<close>. Building the records cannot fail; the write can. \<open>io_ok\<close>
  says whether the file can be opened for writing on this call: if not, the exception
  is caught, the file is as it was and the result is \<open>False\<close>.
\<close>

definition save_reservations ::
  "bool \<Rightarrow> reservation list \<Rightarrow> file_content \<Rightarrow> bool \<times> file_content" where
  "save_reservations io_ok reservations f =
     (if io_ok then (True, Records (map serialize_reservation reservations)) else (False, f))"

text \<open>
  The loop of \<^verbatim>\<open>save\<close>: the first stored reservation with the identifier is replaced
  and the loop left; the flag \<^verbatim>\<open>updated\<close> is the second component.
\<close>

fun update_loop :: "reservation \<Rightarrow> reservation list \<Rightarrow> reservation list \<times> bool" where
  "update_loop reservation [] = ([], False)"
| "update_loop reservation (res # rest) =
     (if reservation_id res = reservation_id reservation then (reservation # rest, True)
      else (case update_loop reservation rest of (rest', updated) \<Rightarrow> (res # rest', updated)))"

definition upsert :: "reservation \<Rightarrow> reservation list \<Rightarrow> reservation list" where
  "upsert reservation reservations =
     (case update_loop reservation reservations of
        (reservations', updated) \<Rightarrow>
          if \<not> updated then reservations' @ [reservation] else reservations')"

definition FileRepository_save ::
  "bool \<Rightarrow> reservation \<Rightarrow> file_content \<Rightarrow> bool \<times> file_content" where
  "FileRepository_save io_ok r f =
     save_reservations io_ok (upsert r (load_reservations f)) f"

fun first_with_id :: "string \<Rightarrow> reservation list \<Rightarrow> reservation option" where
  "first_with_id rid [] = None"
| "first_with_id rid (r # rs) =
     (if reservation_id r = rid then Some r else first_with_id rid rs)"

definition FileRepository_find_by_id :: "string \<Rightarrow> file_content \<Rightarrow> reservation option" where
  "FileRepository_find_by_id rid f = first_with_id rid (load_reservations f)"

definition FileRepository_find_by_room_and_time ::
  "room \<Rightarrow> datetime \<Rightarrow> datetime \<Rightarrow> file_content \<Rightarrow> reservation list" where
  "FileRepository_find_by_room_and_time rm s e f =
     overlapping_loop rm s e (load_reservations f) []"

definition FileRepository_find_all :: "file_content \<Rightarrow> reservation list" where
  "FileRepository_find_all f = load_reservations f"

definition FileRepository_delete :: "bool \<Rightarrow> string \<Rightarrow> file_content \<Rightarrow> bool \<times> file_content" where
  "FileRepository_delete io_ok rid f =
     save_reservations io_ok
       (filter (\<lambda>r. reservation_id r \<noteq> rid) (load_reservations f)) f"

subsection \<open>IReservationRepository (repositories/repository\_interface.py)\<close>

text \<open>
  The abstract interface, as the record of the five methods over a state \<open>'s\<close>. The
  service receives its repository through this interface (dependency injection). The
  three queries return a result only: neither class changes what it stores in a query.
\<close>

record 's IReservationRepository =
  save :: "reservation \<Rightarrow> 's \<Rightarrow> bool \<times> 's"
  find_by_id :: "string \<Rightarrow> 's \<Rightarrow> reservation option"
  find_by_room_and_time :: "room \<Rightarrow> datetime \<Rightarrow> datetime \<Rightarrow> 's \<Rightarrow> reservation list"
  find_all :: "'s \<Rightarrow> reservation list"
  delete :: "string \<Rightarrow> 's \<Rightarrow> bool \<times> 's"

definition InMemoryRepository :: "in_memory IReservationRepository" where
  "InMemoryRepository =
     \<lparr>save = InMemoryRepository_save,
      find_by_id = InMemoryRepository_find_by_id,
      find_by_room_and_time = InMemoryRepository_find_by_room_and_time,
      find_all = InMemoryRepository_find_all,
      delete = InMemoryRepository_delete\<rparr>"

text \<open>The file repository on a call during which writing the file works (\<open>io_ok\<close>) or not.\<close>

definition FileRepository :: "bool \<Rightarrow> file_content IReservationRepository" where
  "FileRepository io_ok =
     \<lparr>save = FileRepository_save io_ok,
      find_by_id = FileRepository_find_by_id,
      find_by_room_and_time = FileRepository_find_by_room_and_time,
      find_all = FileRepository_find_all,
      delete = FileRepository_delete io_ok\<rparr>"

text \<open>A sequence of calls on a repository, and the results it returns, call by call.\<close>

datatype repo_call =
    SaveCall reservation
  | FindByIdCall string
  | FindByRoomAndTimeCall room datetime datetime
  | FindAllCall
  | DeleteCall string

datatype repo_result =
    Saved bool
  | Found "reservation option"
  | FoundList "reservation list"
  | Deleted bool

fun do_call :: "'s IReservationRepository \<Rightarrow> repo_call \<Rightarrow> 's \<Rightarrow> repo_result \<times> 's" where
  "do_call repo (SaveCall r) st = (case save repo r st of (ok, st') \<Rightarrow> (Saved ok, st'))"
| "do_call repo (FindByIdCall rid) st = (Found (find_by_id repo rid st), st)"
| "do_call repo (FindByRoomAndTimeCall rm s e) st =
     (FoundList (find_by_room_and_time repo rm s e st), st)"
| "do_call repo FindAllCall st = (FoundList (find_all repo st), st)"
| "do_call repo (DeleteCall rid) st =
     (case delete repo rid st of (ok, st') \<Rightarrow> (Deleted ok, st'))"

fun run_calls :: "'s IReservationRepository \<Rightarrow> repo_call list \<Rightarrow> 's \<Rightarrow> repo_result list" where
  "run_calls repo [] st = []"
| "run_calls repo (c # cs) st =
     (case do_call repo c st of (res, st') \<Rightarrow> res # run_calls repo cs st')"

text \<open>The state of the repository after a sequence of calls.\<close>

fun run_state :: "'s IReservationRepository \<Rightarrow> repo_call list \<Rightarrow> 's \<Rightarrow> 's" where
  "run_state repo [] st = st"
| "run_state repo (c # cs) st = run_state repo cs (snd (do_call repo c st))"

section \<open>ReservationService (services/reservation\_service.py)\<close>

text \<open>
  The notifier is an external collaborator whose return value the service ignores: what
  matters is which hook is invoked with which reservation. The state the service works
  on is the state of its repository and the log of hook invocations, oldest first.
  Console output is not modelled.
\<close>

datatype notification =
    NotifyConfirmed reservation
  | NotifyCancelled reservation

type_synonym 's service_state = "'s \<times> notification list"

definition validate_time_range :: "datetime \<Rightarrow> datetime \<Rightarrow> bool" where
  "validate_time_range start_t end_t \<longleftrightarrow> start_t < end_t"

definition check_availability ::
  "'s IReservationRepository \<Rightarrow> room \<Rightarrow> datetime \<Rightarrow> datetime \<Rightarrow> 's \<Rightarrow> bool" where
  "check_availability repo rm start_t end_t st =
     (let conflicts = find_by_room_and_time repo rm start_t end_t st
      in length conflicts = 0)"

text \<open>
  \<^verbatim>\<open>create_reservation\<close>. The identifier comes from \<^verbatim>\<open>uuid.uuid4()\<close>, a random draw:
  \<open>rid\<close> is the value \<^verbatim>\<open>_generate_reservation_id\<close> returns on this call.
\<close>

definition create_reservation ::
  "'s IReservationRepository \<Rightarrow> string \<Rightarrow> room \<Rightarrow> string \<Rightarrow> datetime \<Rightarrow> datetime \<Rightarrow> string \<Rightarrow>
     's service_state \<Rightarrow> reservation option \<times> 's service_state" where
  "create_reservation repo rid rm uname start_t end_t purp state =
     (case state of (st, sent) \<Rightarrow>
        if \<not> validate_time_range start_t end_t then (None, (st, sent))
        else if \<not> check_availability repo rm start_t end_t st then (None, (st, sent))
        else
          (let reservation = Reservation rid rm uname start_t end_t purp
           in case save repo reservation st of
                (ok, st') \<Rightarrow>
                  if ok then (Some reservation, (st', sent @ [NotifyConfirmed reservation]))
                  else (None, (st', sent))))"

text \<open>
  \<^verbatim>\<open>cancel_reservation\<close>. With the in-memory repository the object found is the stored
  object itself, so \<^verbatim>\<open>reservation.cancel()\<close> already changes the store; the \<^verbatim>\<open>save\<close>
  that follows cannot fail there and stores the same object under the same key, so
  the state after the call is the one given here.
\<close>

definition cancel_reservation ::
  "'s IReservationRepository \<Rightarrow> string \<Rightarrow> 's service_state \<Rightarrow> bool \<times> 's service_state" where
  "cancel_reservation repo rid state =
     (case state of (st, sent) \<Rightarrow>
        (case find_by_id repo rid st of
           None \<Rightarrow> (False, (st, sent))
         | Some reservation \<Rightarrow>
             if status reservation = ''CANCELLED'' then (False, (st, sent))
             else
               (let reservation = cancel reservation
                in case save repo reservation st of
                     (ok, st') \<Rightarrow>
                       if ok then (True, (st', sent @ [NotifyCancelled reservation]))
                       else (False, (st', sent)))))"

text \<open>
  Sequences of service operations. Each step names the repository object as it behaves
  on that call (for the file repository, with or without a write fault).
\<close>

datatype service_op =
    CreateOp string room string datetime datetime string
  | CancelOp string

fun service_step ::
  "'s IReservationRepository \<Rightarrow> service_op \<Rightarrow> 's service_state \<Rightarrow> 's service_state" where
  "service_step repo (CreateOp rid rm un s e pu) state =
     snd (create_reservation repo rid rm un s e pu state)"
| "service_step repo (CancelOp rid) state = snd (cancel_reservation repo rid state)"

fun run_service ::
  "('e \<Rightarrow> 's IReservationRepository) \<Rightarrow> ('e \<times> service_op) list \<Rightarrow> 's service_state \<Rightarrow>
     's service_state" where
  "run_service repo_at [] state = state"
| "run_service repo_at ((env, op) # ops) state =
     run_service repo_at ops (service_step (repo_at env) op state)"

section \<open>ReservationValidator (services/validation\_service.py)\<close>

record ReservationValidator =
  min_duration_hours :: int
  max_duration_hours :: int
  business_start :: time
  business_end :: time
  max_advance_days :: int

text \<open>The constructor with every argument at its default.\<close>

definition default_validator :: ReservationValidator where
  "default_validator =
     \<lparr>min_duration_hours = 1, max_duration_hours = 8, business_start = mk_time 7 0,
      business_end = mk_time 22 0, max_advance_days = 90\<rparr>"

subsection \<open>Python strings in the validator\<close>

text \<open>
  The validator trims and measures the user name, and one of its messages opens with a
  character outside ASCII. What matters of a Python \<^verbatim>\<open>str\<close> there is the sequence of its
  characters, so in this section a string is the list of its code points. \<open>py\<close> turns an
  ASCII literal into such a list. (Elsewhere strings are only compared and searched, and
  are of type \<open>string\<close>.)
\<close>

type_synonym pystr = "nat list"

definition py :: "string \<Rightarrow> pystr" where
  "py s = map of_char s"

text \<open>Python's \<^verbatim>\<open>str\<close> of an integer, as the f-strings of the messages apply it.\<close>

fun str_nat :: "nat \<Rightarrow> pystr" where
  "str_nat n = (if n < 10 then [48 + n] else str_nat (n div 10) @ [48 + n mod 10])"

declare str_nat.simps [simp del]

definition str_int :: "int \<Rightarrow> pystr" where
  "str_int i = (if i < 0 then 45 # str_nat (nat (- i)) else str_nat (nat i))"

text \<open>\<^verbatim>\<open>strftime('%H:%M')\<close> of a time of day.\<close>

definition two_digits :: "nat \<Rightarrow> pystr" where
  "two_digits n = [48 + n div 10 mod 10, 48 + n mod 10]"

definition strftime_HM :: "time \<Rightarrow> pystr" where
  "strftime_HM t =
     two_digits (nat (t div us_per_hour)) @ py '':'' @
     two_digits (nat (t div (60 * us_per_second) mod 60))"

text \<open>The warning sign that opens the capacity message: U+26A0 followed by U+FE0F.\<close>

definition warning_sign :: pystr where
  "warning_sign = [0x26A0, 0xFE0F]"

text \<open>
  \<^verbatim>\<open>str.strip()\<close> removes the leading and the trailing whitespace. The whitespace
  characters of a Python \<^verbatim>\<open>str\<close> are the code points for which \<^verbatim>\<open>str.isspace\<close> holds:
  U+0009 to U+000D, U+001C to U+0020, U+0085, U+00A0, U+1680, U+2000 to U+200A, U+2028,
  U+2029, U+202F, U+205F and U+3000.
\<close>

definition is_space :: "nat \<Rightarrow> bool" where
  "is_space c \<longleftrightarrow>
     (0x9 \<le> c \<and> c \<le> 0xD) \<or> (0x1C \<le> c \<and> c \<le> 0x20) \<or> c = 0x85 \<or> c = 0xA0 \<or>
     c = 0x1680 \<or> (0x2000 \<le> c \<and> c \<le> 0x200A) \<or> c = 0x2028 \<or> c = 0x2029 \<or>
     c = 0x202F \<or> c = 0x205F \<or> c = 0x3000"

definition strip :: "pystr \<Rightarrow> pystr" where
  "strip s = rev (dropWhile is_space (rev (dropWhile is_space s)))"

subsection \<open>Python floats in the validator\<close>

text \<open>
  \<^verbatim>\<open>_validate_duration\<close> computes \<^verbatim>\<open>(end - start).total_seconds() / 3600\<close> in floating
  point and compares the result with the two integer bounds. A finite float is written
  here as a pair \<open>(m, p)\<close> of integers that stands for \<open>m * 2 ^ p\<close>.

  \<open>true_div n d\<close> is Python's \<^verbatim>\<open>n / d\<close> for integers with \<open>d > 0\<close>: the quotient
  rounded to the nearest float, a tie to the even significand. The quotient of \<open>|n|\<close> by
  \<open>d\<close> lies between \<open>2 ^ e\<close> and \<open>2 ^ (e + 1)\<close>; scaled by \<open>2 ^ (52 - e)\<close> it lies
  between \<open>2 ^ 52\<close> and \<open>2 ^ 53\<close> and is rounded to an integer, the significand of 53
  bits. (The quotients that arise from datetimes are far from the range where a float
  overflows or loses precision to a subnormal.)
\<close>

type_synonym pyfloat = "int \<times> int"

text \<open>The number of binary digits of a positive integer (\<^verbatim>\<open>int.bit_length\<close>).\<close>

function bit_length :: "int \<Rightarrow> nat" where
  "bit_length n = (if n \<le> 0 then 0 else Suc (bit_length (n div 2)))"
  by pat_completeness auto
termination
  by (relation "measure nat") auto

declare bit_length.simps [simp del]

text \<open>The exponent \<open>e\<close> with \<open>2 ^ e \<le> a / d < 2 ^ (e + 1)\<close>, for positive \<open>a\<close> and \<open>d\<close>.\<close>

definition floor_log2 :: "int \<Rightarrow> int \<Rightarrow> int" where
  "floor_log2 a d =
     (let e = int (bit_length a) - int (bit_length d) in
      if (if e \<ge> 0 then d * 2 ^ nat e \<le> a else d \<le> a * 2 ^ nat (- e)) then e else e - 1)"

definition true_div :: "int \<Rightarrow> int \<Rightarrow> pyfloat" where
  "true_div n d =
     (if n = 0 then (0, 0)
      else
        (let a = \<bar>n\<bar>;
             p = floor_log2 a d - 52;
             num = (if p < 0 then a * 2 ^ nat (- p) else a);
             den = (if p < 0 then d else d * 2 ^ nat p);
             q = num div den;
             r = num mod den;
             m = (if 2 * r < den then q
                  else if 2 * r > den then q + 1
                  else if even q then q else q + 1)
         in (sgn n * m, p)))"

text \<open>
  A float divided by a positive integer \<open>k\<close> that is itself a float without rounding
  (as 3600 is): the significand is divided and rounded, the exponent added.
\<close>

definition float_div :: "pyfloat \<Rightarrow> int \<Rightarrow> pyfloat" where
  "float_div x k = (case x of (m, p) \<Rightarrow> (case true_div m k of (m', p') \<Rightarrow> (m', p' + p)))"

text \<open>Python compares a float with an integer by their exact values.\<close>

definition float_less_int :: "pyfloat \<Rightarrow> int \<Rightarrow> bool" where
  "float_less_int x k =
     (case x of (m, p) \<Rightarrow> if p \<ge> 0 then m * 2 ^ nat p < k else m < k * 2 ^ nat (- p))"

definition int_less_float :: "int \<Rightarrow> pyfloat \<Rightarrow> bool" where
  "int_less_float k x =
     (case x of (m, p) \<Rightarrow> if p \<ge> 0 then k < m * 2 ^ nat p else k * 2 ^ nat (- p) < m)"

text \<open>
  \<^verbatim>\<open>timedelta.total_seconds()\<close> is the number of microseconds divided by \<open>10 ^ 6\<close>, a
  division of integers.
\<close>

definition total_seconds :: "int \<Rightarrow> pyfloat" where
  "total_seconds delta = true_div delta us_per_second"

subsection \<open>The rules\<close>

definition validate_time_order :: "datetime \<Rightarrow> datetime \<Rightarrow> bool" where
  "validate_time_order start_t end_t \<longleftrightarrow> start_t < end_t"

definition validate_duration ::
  "ReservationValidator \<Rightarrow> datetime \<Rightarrow> datetime \<Rightarrow> pystr option" where
  "validate_duration v start_t end_t =
     (let duration_hours = float_div (total_seconds (end_t - start_t)) 3600 in
      if float_less_int duration_hours (min_duration_hours v) then
        Some (py ''Minimum reservation duration is '' @ str_int (min_duration_hours v) @
              py '' hour(s)'')
      else if int_less_float (max_duration_hours v) duration_hours then
        Some (py ''Maximum reservation duration is '' @ str_int (max_duration_hours v) @
              py '' hours'')
      else None)"

definition validate_business_hours ::
  "ReservationValidator \<Rightarrow> datetime \<Rightarrow> datetime \<Rightarrow> pystr option" where
  "validate_business_hours v start_t end_t =
     (if time_of start_t < business_start v \<or> time_of end_t > business_end v then
        Some (py ''Reservations must be between '' @ strftime_HM (business_start v) @
              py '' and '' @ strftime_HM (business_end v))
      else None)"

text \<open>
  The two rules that read the clock take the value \<^verbatim>\<open>datetime.now()\<close> returns in them
  as the argument \<open>now\<close>.
\<close>

definition validate_advance_booking ::
  "ReservationValidator \<Rightarrow> datetime \<Rightarrow> datetime \<Rightarrow> pystr option" where
  "validate_advance_booking v now start_t =
     (let days_ahead = date_of start_t - date_of now in
      if days_ahead > max_advance_days v then
        Some (py ''Cannot book more than '' @ str_int (max_advance_days v) @
              py '' days in advance'')
      else None)"

definition validate_not_in_past :: "datetime \<Rightarrow> datetime \<Rightarrow> bool" where
  "validate_not_in_past now start_t \<longleftrightarrow> start_t > now"

definition validate_user_name :: "pystr \<Rightarrow> bool" where
  "validate_user_name uname \<longleftrightarrow> length (strip uname) \<ge> 2"

subsection \<open>validate\_all\<close>

text \<open>
  The list \<^verbatim>\<open>errors\<close> is threaded through the seven \<^verbatim>\<open>if\<close> statements in the order
  of the source. \<open>now1\<close> is the clock as \<^verbatim>\<open>_validate_advance_booking\<close> reads it,
  \<open>now2\<close> as \<^verbatim>\<open>_validate_not_in_past\<close> reads it a moment later.
\<close>

definition validate_all ::
  "ReservationValidator \<Rightarrow> datetime \<Rightarrow> datetime \<Rightarrow> room \<Rightarrow> datetime \<Rightarrow> datetime \<Rightarrow> pystr \<Rightarrow>
     bool \<times> pystr list" where
  "validate_all v now1 now2 rm start_t end_t uname =
     (let errors = [];
          errors = (if \<not> validate_time_order start_t end_t
                    then errors @ [py ''End time must be after start time''] else errors);
          duration_error = validate_duration v start_t end_t;
          errors = (case duration_error of Some m \<Rightarrow> errors @ [m] | None \<Rightarrow> errors);
          hours_error = validate_business_hours v start_t end_t;
          errors = (case hours_error of Some m \<Rightarrow> errors @ [m] | None \<Rightarrow> errors);
          advance_error = validate_advance_booking v now1 start_t;
          errors = (case advance_error of Some m \<Rightarrow> errors @ [m] | None \<Rightarrow> errors);
          errors = (if \<not> validate_not_in_past now2 start_t
                    then errors @ [py ''Cannot book reservations in the past''] else errors);
          errors = (if \<not> validate_user_name uname
                    then errors @ [py ''User name must be at least 2 characters''] else errors);
          errors = (if capacity rm < 5
                    then errors @ [warning_sign @ py '' Warning: Small room capacity ('' @
                                   str_int (capacity rm) @ py '' people)'']
                    else errors)
      in (length errors = 0, errors))"

section \<open>Notions used in the statements\<close>

text \<open>
  What a reservation is once it has been written to the file and read back: the room is
  rebuilt by \<^verbatim>\<open>_deserialize_room\<close> from what \<^verbatim>\<open>_serialize_room\<close> wrote.
\<close>

definition reload :: "reservation \<Rightarrow> reservation" where
  "reload r = r\<lparr>room := deserialize_room (serialize_room (room r))\<rparr>"

text \<open>
  A backing file that \<^verbatim>\<open>_load_reservations\<close> fails on: it is missing, cannot be read
  or parsed, or one of its records raises in the loop.
\<close>

definition unloadable :: "file_content \<Rightarrow> bool" where
  "unloadable f \<longleftrightarrow>
     (case f of NoFile \<Rightarrow> True | Unreadable \<Rightarrow> True | Records data \<Rightarrow> load_loop data [] = None)"

text \<open>
  Two stored reservations are in conflict when both are not cancelled, they are for the
  same room (by \<open>room_id\<close>) and their intervals overlap under the half-open rule. A
  list of reservations is free of conflicts when no two of its entries are in conflict.
\<close>

definition conflict :: "reservation \<Rightarrow> reservation \<Rightarrow> bool" where
  "conflict a b \<longleftrightarrow>
     status a \<noteq> ''CANCELLED'' \<and> status b \<noteq> ''CANCELLED'' \<and>
     room_id (room a) = room_id (room b) \<and>
     start_time a < end_time b \<and> start_time b < end_time a"

definition conflict_free :: "reservation list \<Rightarrow> bool" where
  "conflict_free rs \<longleftrightarrow> sorted_wrt (\<lambda>a b. \<not> conflict a b) rs"

text \<open>
  Comparing what the two repositories return: \<open>reloaded\<close> rebuilds the room of every
  reservation in a result, as the file does.
\<close>

fun reloaded :: "repo_result \<Rightarrow> repo_result" where
  "reloaded (Found a) = Found (map_option reload a)"
| "reloaded (FoundList a) = FoundList (map reload a)"
| "reloaded (Saved ok) = Saved ok"
| "reloaded (Deleted ok) = Deleted ok"

text \<open>
  The in-memory dictionary keeps every reservation under its own identifier, and the two
  stores are related when the file loads as the dictionary's values, rooms rebuilt.
\<close>

definition keys_ok :: "in_memory \<Rightarrow> bool" where
  "keys_ok d \<longleftrightarrow> (\<forall>p \<in> set d. fst p = reservation_id (snd p))"

definition related :: "in_memory \<Rightarrow> file_content \<Rightarrow> bool" where
  "related d f \<longleftrightarrow> keys_ok d \<and> load_reservations f = map reload (dict_values d)"

text \<open>Reservations that come back from the file as they went in.\<close>

definition all_fixed :: "reservation list \<Rightarrow> bool" where
  "all_fixed rs \<longleftrightarrow> (\<forall>r \<in> set rs. reload r = r)"

section \<open>Example data\<close>

text \<open>Two rooms and four reservations, one of them cancelled, as both repositories hold them.\<close>

definition room_a :: room where
  "room_a = new_Classroom ''CL-101'' ''Room A'' 30"

definition room_b :: room where
  "room_b = new_ConferenceRoom ''CF-201'' ''Room B'' 12"

definition res_a1 :: reservation where
  "res_a1 = Reservation ''RES-A1'' room_a ''Ann'' 100 200 ''lecture''"

definition res_a2 :: reservation where
  "res_a2 = Reservation ''RES-A2'' room_a ''Bob'' 200 300 ''seminar''"

definition res_a3 :: reservation where
  "res_a3 = cancel (Reservation ''RES-A3'' room_a ''Cid'' 120 180 ''exam'')"

definition res_b1 :: reservation where
  "res_b1 = Reservation ''RES-B1'' room_b ''Dan'' 100 200 ''board''"

definition mem_example :: in_memory where
  "mem_example =
     [(''RES-A1'', res_a1), (''RES-A2'', res_a2), (''RES-A3'', res_a3), (''RES-B1'', res_b1)]"

definition file_example :: file_content where
  "file_example = Records (map serialize_reservation [res_a1, res_a2, res_a3, res_b1])"

text \<open>A file whose second record carries a timestamp that does not parse.\<close>

definition bad_item :: json_item where
  "bad_item = (serialize_reservation res_a2)\<lparr>ji_start_time := NotIso ''next Tuesday''\<rparr>"

definition file_damaged :: file_content where
  "file_damaged = Records [serialize_reservation res_a1, bad_item]"

text \<open>A room for four people, and a day to book it on.\<close>

definition small_room :: room where
  "small_room = new_Classroom ''CL-001'' ''Booth'' 4"

definition day :: datetime where
  "day = 20000 * us_per_day"

text \<open>A reservation of room A in a free slot.\<close>

definition res_new :: reservation where
  "res_new = Reservation ''RES-N1'' room_a ''Eve'' 300 400 ''review''"

text \<open>Two laboratories and a booking of each.\<close>

definition cs_lab :: room where
  "cs_lab = Laboratory ''LAB-301'' ''CS Lab'' 20 ''Computer Science'' True"

definition res_lab :: reservation where
  "res_lab = Reservation ''RES-L1'' cs_lab ''Fay'' 100 200 ''practical''"

definition chem_lab :: room where
  "chem_lab = Laboratory ''LAB-302'' ''Chem Lab'' 25 ''Chemistry'' True"

definition res_chem :: reservation where
  "res_chem = Reservation ''RES-L2'' chem_lab ''Gus'' 100 200 ''titration''"

text \<open>A sequence of service operations, for either repository.\<close>

definition res_1 :: reservation where
  "res_1 = Reservation ''RES-1'' room_a ''Ann'' 100 200 ''lecture''"

definition res_3 :: reservation where
  "res_3 = Reservation ''RES-3'' room_a ''Cid'' 200 300 ''seminar''"

definition res_4 :: reservation where
  "res_4 = Reservation ''RES-4'' room_a ''Dan'' 100 200 ''exam''"

definition booking_ops :: "service_op list" where
  "booking_ops =
     [CreateOp ''RES-1'' room_a ''Ann'' 100 200 ''lecture'',
      CreateOp ''RES-2'' room_a ''Bob'' 150 250 ''tutorial'',
      CreateOp ''RES-3'' room_a ''Cid'' 200 300 ''seminar'',
      CancelOp ''RES-1'',
      CreateOp ''RES-4'' room_a ''Dan'' 100 200 ''exam'']"

definition file_booking_ops :: "(bool \<times> service_op) list" where
  "file_booking_ops =
     [(True, CreateOp ''RES-1'' room_a ''Ann'' 100 200 ''lecture''),
      (True, CreateOp ''RES-2'' room_a ''Bob'' 150 250 ''tutorial''),
      (False, CreateOp ''RES-3'' room_a ''Cid'' 200 300 ''seminar''),
      (True, CreateOp ''RES-3'' room_a ''Cid'' 200 300 ''seminar''),
      (True, CancelOp ''RES-1''),
      (True, CreateOp ''RES-4'' room_a ''Dan'' 100 200 ''exam'')]"

text \<open>Two calls that fill a repository.\<close>

definition saved_example :: "repo_call list" where
  "saved_example = [SaveCall res_a1, SaveCall res_b1]"




text \<open>
  Rules that allow five million hours, and a booking from nine in the morning that lasts
  five million hours and one microsecond.
\<close>

definition long_validator :: ReservationValidator where
  "long_validator = default_validator\<lparr>max_duration_hours := 5000000\<rparr>"


section \<open>Properties\<close>

subsection \<open>Evaluating the example data\<close>

lemmas example_defs =
  room_a_def room_b_def res_a1_def res_a2_def res_a3_def res_b1_def
  Reservation_def cancel_def new_Classroom_def new_ConferenceRoom_def

lemma load_file_example: "load_reservations file_example = [res_a1, res_a2, res_a3, res_b1]"
  by (simp add: file_example_def load_reservations_def load_item_def
      serialize_reservation_def serialize_room_def deserialize_room_def isoformat_def
      example_defs)

lemma values_mem_example: "dict_values mem_example = [res_a1, res_a2, res_a3, res_b1]"
  by (simp add: mem_example_def dict_values_def)

subsection \<open>The conflict query\<close>

lemma overlapping_loop_filter:
  "overlapping_loop rm s e rs acc =
     acc @ filter (\<lambda>r. room_id (room r) = room_id rm \<and> overlaps_with r s e \<and>
                        status r \<noteq> ''CANCELLED'') rs"
  by (induction rs arbitrary: acc) simp_all

text \<open>
  Claim C2. In any state of either repository, \<^verbatim>\<open>find_by_room_and_time(room, s, e)\<close> returns
  exactly the stored reservations (in stored order) whose \<open>room_id\<close> is the room's, whose
  status is not CANCELLED and whose interval overlaps the range under the half-open rule
  \<open>start < e \<and> s < end\<close>. Hence no returned reservation is cancelled, and none only
  touches the range: none ends where the range starts or starts where the range ends.
\<close>

theorem find_by_room_and_time_exact:
  fixes rm :: room and s e :: datetime and d :: in_memory and f :: file_content
  defines "hit \<equiv> (\<lambda>r. room_id (room r) = room_id rm \<and> status r \<noteq> ''CANCELLED'' \<and>
                       start_time r < e \<and> s < end_time r)"
  shows "InMemoryRepository_find_by_room_and_time rm s e d = filter hit (dict_values d) \<and>
         FileRepository_find_by_room_and_time rm s e f = filter hit (load_reservations f) \<and>
         (\<forall>r \<in> set (InMemoryRepository_find_by_room_and_time rm s e d) \<union>
                 set (FileRepository_find_by_room_and_time rm s e f).
            status r \<noteq> ''CANCELLED'' \<and> end_time r \<noteq> s \<and> start_time r \<noteq> e)"
  unfolding hit_def InMemoryRepository_find_by_room_and_time_def
    FileRepository_find_by_room_and_time_def overlapping_loop_filter overlaps_with_def
  by (auto intro: filter_cong)

text \<open>
  On the example data: the range 150 to 200 in room A meets the first reservation only
  (the second starts at 200, the third is cancelled, the fourth is in room B), and the
  range 200 to 250 meets the second only (the first ends at 200).
\<close>

theorem find_by_room_and_time_exact_witness:
  "InMemoryRepository_find_by_room_and_time room_a 150 200 mem_example = [res_a1] \<and>
   FileRepository_find_by_room_and_time room_a 150 200 file_example = [res_a1] \<and>
   InMemoryRepository_find_by_room_and_time room_a 200 250 mem_example = [res_a2] \<and>
   FileRepository_find_by_room_and_time room_a 200 250 file_example = [res_a2]"
  using find_by_room_and_time_exact [of room_a 150 200 mem_example file_example]
    find_by_room_and_time_exact [of room_a 200 250 mem_example file_example]
  unfolding load_file_example values_mem_example
  by (simp add: example_defs)

subsection \<open>Writing the file and reading it back\<close>

lemma load_item_serialize: "load_item (serialize_reservation r) = Some (reload r)"
  by (simp add: load_item_def serialize_reservation_def isoformat_def Reservation_def reload_def)

lemma load_loop_serialized:
  "load_loop (map serialize_reservation rs) acc = Some (acc @ map reload rs)"
  by (induction rs arbitrary: acc) (simp_all add: load_item_serialize)

lemma load_written:
  "load_reservations (Records (map serialize_reservation rs)) = map reload rs"
  by (simp add: load_reservations_def load_loop_serialized)

subsection \<open>A backing file that cannot be loaded\<close>

lemma load_unloadable: "unloadable f \<Longrightarrow> load_reservations f = []"
  by (cases f) (simp_all add: unloadable_def load_reservations_def)

text \<open>
  Claim C10. When the backing file cannot be read or parsed, the file repository reports
  nothing to its caller: \<^verbatim>\<open>find_all\<close> returns the empty list, \<^verbatim>\<open>find_by_id\<close> returns
  nothing, \<^verbatim>\<open>find_by_room_and_time\<close> returns the empty list, and a \<^verbatim>\<open>save\<close> that
  follows succeeds and leaves a file holding the saved reservation alone, whatever the
  file held before.
\<close>

theorem unreadable_file_is_empty_store:
  assumes "unloadable f"
  shows "FileRepository_find_all f = [] \<and>
         FileRepository_find_by_id rid f = None \<and>
         FileRepository_find_by_room_and_time rm s e f = [] \<and>
         FileRepository_save True r f = (True, Records [serialize_reservation r])"
  using load_unloadable [OF assms]
  by (simp add: FileRepository_find_all_def FileRepository_find_by_id_def
      FileRepository_find_by_room_and_time_def FileRepository_save_def
      save_reservations_def upsert_def)

lemma unloadable_damaged: "unloadable file_damaged"
  by (simp add: unloadable_def file_damaged_def bad_item_def load_item_def
      serialize_reservation_def isoformat_def)

text \<open>
  On the damaged example file: its first record is sound, yet nothing is found, and
  saving another reservation leaves that one alone in the file.
\<close>

theorem unreadable_file_is_empty_store_witness:
  "unloadable file_damaged \<and>
   FileRepository_find_all file_damaged = [] \<and>
   FileRepository_find_by_id ''RES-A1'' file_damaged = None \<and>
   FileRepository_find_by_room_and_time room_a 100 200 file_damaged = [] \<and>
   FileRepository_save True res_b1 file_damaged = (True, Records [serialize_reservation res_b1])"
  using unreadable_file_is_empty_store [OF unloadable_damaged, of "''RES-A1''" room_a 100 200 res_b1]
    unloadable_damaged
  by simp

subsection \<open>Hard delete\<close>

text \<open>
  Claim C5. \<^verbatim>\<open>delete(id)\<close> is to return false when no stored reservation has the
  identifier. \<^verbatim>\<open>InMemoryRepository.delete\<close> does; \<^verbatim>\<open>FileRepository.delete\<close> returns
  whatever \<^verbatim>\<open>_save_reservations\<close> returns, which is true whenever the file can be
  written. On a fresh, empty store and an identifier that \<^verbatim>\<open>find_by_id\<close> does not find,
  the file repository answers true where the in-memory repository answers false.
\<close>

theorem FileRepository_delete_absent_reports_success:
  "FileRepository_find_by_id ''RES-404'' (FileRepository_init NoFile) = None \<and>
   FileRepository_delete True ''RES-404'' (FileRepository_init NoFile) = (True, Records []) \<and>
   InMemoryRepository_delete ''RES-404'' InMemoryRepository_init = (False, [])"
  by (simp add: FileRepository_init_def ensure_file_exists_def FileRepository_find_by_id_def
      FileRepository_delete_def load_reservations_def save_reservations_def
      InMemoryRepository_delete_def InMemoryRepository_init_def dict_contains_def)

subsection \<open>The validator\<close>

lemma validate_all_fst:
  "fst (validate_all v na np rm s e u) \<longleftrightarrow> snd (validate_all v na np rm s e u) = []"
  by (simp add: validate_all_def Let_def)

lemma validate_all_snd_rules:
  "snd (validate_all v na np rm s e u) =
     (if validate_time_order s e then [] else [py ''End time must be after start time'']) @
     (case validate_duration v s e of None \<Rightarrow> [] | Some m \<Rightarrow> [m]) @
     (case validate_business_hours v s e of None \<Rightarrow> [] | Some m \<Rightarrow> [m]) @
     (case validate_advance_booking v na s of None \<Rightarrow> [] | Some m \<Rightarrow> [m]) @
     (if validate_not_in_past np s then [] else [py ''Cannot book reservations in the past'']) @
     (if validate_user_name u then [] else [py ''User name must be at least 2 characters'']) @
     (if capacity rm < 5
      then [warning_sign @ py '' Warning: Small room capacity ('' @ str_int (capacity rm) @
            py '' people)'']
      else [])"
  by (simp add: validate_all_def Let_def split: option.splits)














lemma small_room_small: "(capacity small_room < 5) = True"
  by code_simp

lemma small_room_capacity: "capacity small_room = 4"
  by (simp add: small_room_def new_Classroom_def)

lemma py_append: "py a @ py b = py (a @ b)"
  by (simp add: py_def)

lemma str_int_examples:
  "str_int 1 = py ''1''" "str_int 4 = py ''4''" "str_int 90 = py ''90''"
  by code_simp+




lemma small_room_message:
  "warning_sign @ py '' Warning: Small room capacity ('' @ str_int (capacity small_room) @
     py '' people)'' = warning_sign @ py '' Warning: Small room capacity (4 people)''"
  unfolding small_room_capacity str_int_examples py_append
  by simp








text \<open>
  The comparison is the one of the floats: a booking of five million hours and one
  microsecond is within a maximum of five million hours, because its length in seconds
  and then in hours rounds to the float 5000000.0; a booking of eight hours and one
  microsecond is beyond the default maximum of eight hours.
\<close>

lemma validate_duration_rounds:
  "validate_duration long_validator 0 (5000000 * us_per_hour + 1) = None"
  "validate_duration default_validator 0 (8 * us_per_hour + 1) =
     Some (py ''Maximum reservation duration is '' @ str_int 8 @ py '' hours'')"
  by code_simp+

lemma ok_rules:
  "validate_duration default_validator (day + 9 * us_per_hour) (day + 11 * us_per_hour) = None"
  "validate_business_hours default_validator (day + 9 * us_per_hour) (day + 11 * us_per_hour) = None"
  "validate_advance_booking default_validator (day - us_per_day) (day + 9 * us_per_hour) = None"
  "validate_time_order (day + 9 * us_per_hour) (day + 11 * us_per_hour) = True"
  "validate_not_in_past (day - us_per_day) (day + 9 * us_per_hour) = True"
  "validate_user_name (py ''John Doe'') = True"
  by code_simp+

lemma small_room_messages:
  "snd (validate_all default_validator (day - us_per_day) (day - us_per_day) small_room
     (day + 9 * us_per_hour) (day + 11 * us_per_hour) (py ''John Doe'')) =
   [warning_sign @ py '' Warning: Small room capacity (4 people)'']"
  unfolding validate_all_snd_rules ok_rules small_room_message small_room_small
  by simp

text \<open>
  Claim C8. An input that satisfies all six rules for a room of capacity below five is to be
  valid, the capacity message being a warning (the source says so in its comment:
  ``warning, not error''). The code appends the warning to \<^verbatim>\<open>errors\<close> and returns
  \<^verbatim>\<open>len(errors) == 0\<close>: for a two-hour booking tomorrow morning of a room for four
  under the default rules, every rule passes and the flag is false.
\<close>

theorem small_room_advisory_blocks_validity:
  "validate_time_order (day + 9 * us_per_hour) (day + 11 * us_per_hour) \<and>
   validate_duration default_validator (day + 9 * us_per_hour) (day + 11 * us_per_hour) = None \<and>
   validate_business_hours default_validator (day + 9 * us_per_hour) (day + 11 * us_per_hour) = None \<and>
   validate_advance_booking default_validator (day - us_per_day) (day + 9 * us_per_hour) = None \<and>
   validate_not_in_past (day - us_per_day) (day + 9 * us_per_hour) \<and>
   validate_user_name (py ''John Doe'') \<and>
   capacity small_room = 4 \<and>
   validate_all default_validator (day - us_per_day) (day - us_per_day) small_room
     (day + 9 * us_per_hour) (day + 11 * us_per_hour) (py ''John Doe'') =
     (False, [warning_sign @ py '' Warning: Small room capacity (4 people)''])"
proof (intro conjI)
  show "validate_all default_validator (day - us_per_day) (day - us_per_day) small_room
     (day + 9 * us_per_hour) (day + 11 * us_per_hour) (py ''John Doe'') =
     (False, [warning_sign @ py '' Warning: Small room capacity (4 people)''])"
    by (rule prod_eqI) (simp_all add: validate_all_fst small_room_messages)
qed (simp_all only: ok_rules small_room_capacity simp_thms)

subsection \<open>The service\<close>

lemma repo_simps [simp]:
  "save InMemoryRepository = InMemoryRepository_save"
  "find_by_id InMemoryRepository = InMemoryRepository_find_by_id"
  "find_by_room_and_time InMemoryRepository = InMemoryRepository_find_by_room_and_time"
  "find_all InMemoryRepository = InMemoryRepository_find_all"
  "delete InMemoryRepository = InMemoryRepository_delete"
  "save (FileRepository io_ok) = FileRepository_save io_ok"
  "find_by_id (FileRepository io_ok) = FileRepository_find_by_id"
  "find_by_room_and_time (FileRepository io_ok) = FileRepository_find_by_room_and_time"
  "find_all (FileRepository io_ok) = FileRepository_find_all"
  "delete (FileRepository io_ok) = FileRepository_delete io_ok"
  by (simp_all add: InMemoryRepository_def FileRepository_def)

text \<open>
  Claim C3. \<^verbatim>\<open>create_reservation\<close>, on any repository: when the start is not before
  the end it returns nothing and leaves the repository and the notifier untouched; so it
  does when the repository reports a conflicting reservation for the room and range;
  otherwise it builds a reservation in CONFIRMED status and saves it, and if the save
  succeeds it invokes the confirmed hook with the reservation and returns it, and if the
  save fails it returns nothing and invokes no hook.
\<close>

theorem create_reservation_outcomes:
  fixes repo :: "'s IReservationRepository" and rid un pu :: string and rm :: room
    and s e :: datetime
  defines "new \<equiv> Reservation rid rm un s e pu"
  shows "(\<not> s < e \<longrightarrow>
            create_reservation repo rid rm un s e pu (st, sent) = (None, (st, sent))) \<and>
         (s < e \<and> find_by_room_and_time repo rm s e st \<noteq> [] \<longrightarrow>
            create_reservation repo rid rm un s e pu (st, sent) = (None, (st, sent))) \<and>
         (s < e \<and> find_by_room_and_time repo rm s e st = [] \<longrightarrow>
            status new = ''CONFIRMED'' \<and>
            create_reservation repo rid rm un s e pu (st, sent) =
              (if fst (save repo new st)
               then (Some new, (snd (save repo new st), sent @ [NotifyConfirmed new]))
               else (None, (snd (save repo new st), sent))))"
  unfolding new_def
  by (simp add: create_reservation_def validate_time_range_def check_availability_def
      Let_def Reservation_def split: prod.splits)

lemma mem_busy:
  "InMemoryRepository_find_by_room_and_time room_a 150 250 mem_example = [res_a1, res_a2]"
  unfolding InMemoryRepository_find_by_room_and_time_def overlapping_loop_filter
    values_mem_example
  by (simp add: example_defs overlaps_with_def)

lemma mem_free:
  "InMemoryRepository_find_by_room_and_time room_a 300 400 mem_example = []"
  unfolding InMemoryRepository_find_by_room_and_time_def overlapping_loop_filter
    values_mem_example
  by (simp add: example_defs overlaps_with_def)

lemma file_free:
  "FileRepository_find_by_room_and_time room_a 300 400 file_example = []"
  unfolding FileRepository_find_by_room_and_time_def overlapping_loop_filter
    load_file_example
  by (simp add: example_defs overlaps_with_def)

lemma mem_save_new:
  "InMemoryRepository_save res_new mem_example = (True, mem_example @ [(''RES-N1'', res_new)])"
  by (simp add: InMemoryRepository_save_def mem_example_def res_new_def Reservation_def)

lemma file_save_fault:
  "FileRepository_save False r f = (False, f)"
  by (simp add: FileRepository_save_def save_reservations_def)

text \<open>
  On the example data: a reversed range, a range that meets two bookings of room A, a free
  range (the reservation is appended to the dictionary and announced), and a free range
  on a file that cannot be written.
\<close>

theorem create_reservation_outcomes_witness:
  "create_reservation InMemoryRepository ''RES-N1'' room_a ''Eve'' 400 300 ''review''
     (mem_example, []) = (None, (mem_example, [])) \<and>
   create_reservation InMemoryRepository ''RES-N1'' room_a ''Eve'' 150 250 ''review''
     (mem_example, []) = (None, (mem_example, [])) \<and>
   create_reservation InMemoryRepository ''RES-N1'' room_a ''Eve'' 300 400 ''review''
     (mem_example, []) =
     (Some res_new, (mem_example @ [(''RES-N1'', res_new)], [NotifyConfirmed res_new])) \<and>
   create_reservation (FileRepository False) ''RES-N1'' room_a ''Eve'' 300 400 ''review''
     (file_example, []) = (None, (file_example, []))"
  using create_reservation_outcomes [where repo = "InMemoryRepository" and rid = "''RES-N1''" and rm = room_a
      and un = "''Eve''" and s = 400 and e = 300 and pu = "''review''" and st = mem_example
      and sent = "[]"]
    create_reservation_outcomes [where repo = "InMemoryRepository" and rid = "''RES-N1''" and rm = room_a
      and un = "''Eve''" and s = 150 and e = 250 and pu = "''review''" and st = mem_example
      and sent = "[]"]
    create_reservation_outcomes [where repo = "InMemoryRepository" and rid = "''RES-N1''" and rm = room_a
      and un = "''Eve''" and s = 300 and e = 400 and pu = "''review''" and st = mem_example
      and sent = "[]"]
    create_reservation_outcomes [where repo = "FileRepository False" and rid = "''RES-N1''" and rm = room_a
      and un = "''Eve''" and s = 300 and e = 400 and pu = "''review''" and st = file_example
      and sent = "[]"]
  unfolding repo_simps mem_busy mem_free file_free res_new_def [symmetric] mem_save_new
    file_save_fault
  by simp

text \<open>
  Claim C9. \<^verbatim>\<open>cancel_reservation\<close>, on any repository: it returns false when the
  identifier is not found, and false when the reservation found is already CANCELLED, in
  both cases with the repository and the notifier untouched; otherwise it sets the status
  to CANCELLED and saves the reservation, and if the save succeeds it invokes the
  cancelled hook and returns true, and if the save fails it returns false and invokes no
  hook.
\<close>

theorem cancel_reservation_outcomes:
  fixes repo :: "'s IReservationRepository"
  shows "(find_by_id repo rid st = None \<longrightarrow>
            cancel_reservation repo rid (st, sent) = (False, (st, sent))) \<and>
         (\<forall>r. find_by_id repo rid st = Some r \<and> status r = ''CANCELLED'' \<longrightarrow>
            cancel_reservation repo rid (st, sent) = (False, (st, sent))) \<and>
         (\<forall>r. find_by_id repo rid st = Some r \<and> status r \<noteq> ''CANCELLED'' \<longrightarrow>
            status (cancel r) = ''CANCELLED'' \<and>
            cancel_reservation repo rid (st, sent) =
              (if fst (save repo (cancel r) st)
               then (True, (snd (save repo (cancel r) st), sent @ [NotifyCancelled (cancel r)]))
               else (False, (snd (save repo (cancel r) st), sent))))"
  by (simp add: cancel_reservation_def Let_def cancel_def split: prod.splits)


lemma mem_find_404: "InMemoryRepository_find_by_id ''RES-404'' mem_example = None"
  by (simp add: InMemoryRepository_find_by_id_def mem_example_def)

lemma mem_find_a3: "InMemoryRepository_find_by_id ''RES-A3'' mem_example = Some res_a3"
  by (simp add: InMemoryRepository_find_by_id_def mem_example_def)

lemma mem_find_a1: "InMemoryRepository_find_by_id ''RES-A1'' mem_example = Some res_a1"
  by (simp add: InMemoryRepository_find_by_id_def mem_example_def)

lemma file_find_a1: "FileRepository_find_by_id ''RES-A1'' file_example = Some res_a1"
  unfolding FileRepository_find_by_id_def load_file_example
  by (simp add: example_defs)

lemma status_examples:
  "status res_a1 = ''CONFIRMED''" "status res_a3 = ''CANCELLED''"
  by (simp_all add: example_defs)

lemma mem_save_cancelled:
  "InMemoryRepository_save (cancel res_a1) mem_example =
     (True, [(''RES-A1'', cancel res_a1), (''RES-A2'', res_a2), (''RES-A3'', res_a3),
             (''RES-B1'', res_b1)])"
  by (simp add: InMemoryRepository_save_def mem_example_def res_a1_def Reservation_def cancel_def)

text \<open>
  On the example data: an unknown identifier, a reservation cancelled before, a confirmed
  reservation (stored as cancelled in its place, and announced), and a confirmed
  reservation in a file that cannot be written.
\<close>

theorem cancel_reservation_outcomes_witness:
  "cancel_reservation InMemoryRepository ''RES-404'' (mem_example, []) =
     (False, (mem_example, [])) \<and>
   cancel_reservation InMemoryRepository ''RES-A3'' (mem_example, []) =
     (False, (mem_example, [])) \<and>
   cancel_reservation InMemoryRepository ''RES-A1'' (mem_example, []) =
     (True, ([(''RES-A1'', cancel res_a1), (''RES-A2'', res_a2), (''RES-A3'', res_a3),
              (''RES-B1'', res_b1)], [NotifyCancelled (cancel res_a1)])) \<and>
   cancel_reservation (FileRepository False) ''RES-A1'' (file_example, []) =
     (False, (file_example, []))"
  using cancel_reservation_outcomes [where repo = InMemoryRepository and rid = "''RES-404''"
      and st = mem_example and sent = "[]"]
    cancel_reservation_outcomes [where repo = InMemoryRepository and rid = "''RES-A3''"
      and st = mem_example and sent = "[]"]
    cancel_reservation_outcomes [where repo = InMemoryRepository and rid = "''RES-A1''"
      and st = mem_example and sent = "[]"]
    cancel_reservation_outcomes [where repo = "FileRepository False" and rid = "''RES-A1''"
      and st = file_example and sent = "[]"]
  unfolding repo_simps mem_find_404 mem_find_a3 mem_find_a1 file_find_a1
  by (simp add: status_examples mem_save_cancelled file_save_fault)

subsection \<open>The round trip through the file\<close>

lemma upsert_Nil: "upsert r [] = [r]"
  by (simp add: upsert_def)

lemma upsert_Cons:
  "upsert r (x # xs) =
     (if reservation_id x = reservation_id r then r # xs else x # upsert r xs)"
  by (simp add: upsert_def split: prod.splits)

lemma first_with_id_upsert:
  "first_with_id (reservation_id r) (upsert r xs) = Some r"
  by (induction xs) (simp_all add: upsert_Nil upsert_Cons)

lemma reload_fields:
  "reservation_id (reload r) = reservation_id r"
  "user_name (reload r) = user_name r"
  "start_time (reload r) = start_time r"
  "end_time (reload r) = end_time r"
  "purpose (reload r) = purpose r"
  "status (reload r) = status r"
  by (simp_all add: reload_def)

lemma deserialize_room_fields:
  "room_id (deserialize_room data) = jr_room_id data"
  "name (deserialize_room data) = jr_name data"
  "capacity (deserialize_room data) = jr_capacity data"
  by (simp_all add: deserialize_room_def Let_def new_Classroom_def new_ConferenceRoom_def
      new_ComputerLab_def init_ComputerLab_def new_Laboratory_def)

lemma reload_room_fields:
  "room_id (room (reload r)) = room_id (room r)"
  "name (room (reload r)) = name (room r)"
  "capacity (room (reload r)) = capacity (room r)"
  by (simp_all add: reload_def deserialize_room_fields serialize_room_def)

lemma class_of_deserialize_room:
  "class_of (deserialize_room data) =
     (if is_substring ''Classroom'' (jr_type data) then ClassroomC
      else if is_substring ''Conference'' (jr_type data) then ConferenceRoomC
      else if is_substring ''Computer'' (jr_type data) then ComputerLabC
      else LaboratoryC)"
  by (simp add: deserialize_room_def Let_def new_Classroom_def new_ConferenceRoom_def
      new_ComputerLab_def init_ComputerLab_def new_Laboratory_def)

lemma first_with_id_map_reload:
  "first_with_id rid (map reload xs) = map_option reload (first_with_id rid xs)"
  by (induction xs) (simp_all add: reload_fields)

lemma find_after_save:
  "FileRepository_find_by_id (reservation_id r) (snd (FileRepository_save True r f)) =
     Some (reload r)"
  by (simp add: FileRepository_find_by_id_def FileRepository_save_def save_reservations_def
      load_written first_with_id_map_reload first_with_id_upsert)

lemma is_substring_snoc:
  "w \<noteq> [] \<Longrightarrow> last w \<noteq> y \<Longrightarrow> is_substring w (t @ [y]) = is_substring w t"
proof (induction t)
  case Nil
  then show ?case by (cases w) auto
next
  case (Cons c t)
  have "prefix w ((c # t) @ [y]) \<longleftrightarrow> prefix w (c # t)"
    using Cons.prems prefix_snoc [of w "c # t" y] by auto
  with Cons show ?case by simp
qed


lemma lab_tag_snoc:
  "is_substring ''Classroom'' (t @ '')'') = is_substring ''Classroom'' t"
  "is_substring ''Conference'' (t @ '')'') = is_substring ''Conference'' t"
  "is_substring ''Computer'' (t @ '')'') = is_substring ''Computer'' t"
  by (simp_all add: is_substring_snoc)

lemma class_of_reload:
  "class_of (room (reload r)) =
     (if is_substring ''Classroom'' (get_room_type (room r)) then ClassroomC
      else if is_substring ''Conference'' (get_room_type (room r)) then ConferenceRoomC
      else if is_substring ''Computer'' (get_room_type (room r)) then ComputerLabC
      else LaboratoryC)"
  by (simp add: reload_def class_of_deserialize_room serialize_room_def)

lemma class_kept:
  assumes "case room r of
             Laboratory _ _ _ t _ \<Rightarrow>
               \<not> is_substring ''Classroom'' t \<and> \<not> is_substring ''Conference'' t \<and>
               \<not> is_substring ''Computer'' t
           | _ \<Rightarrow> True"
  shows "class_of (room (reload r)) = class_of (room r)"
  using assms unfolding class_of_reload
  by (cases "room r") (simp_all add: lab_tag_snoc)

lemma tag_kept:
  assumes "case room r of Laboratory _ _ _ t _ \<Rightarrow> t = ''General'' | _ \<Rightarrow> True"
  shows "get_room_type (room (reload r)) = get_room_type (room r)"
  using assms
  by (cases "room r")
    (simp_all add: reload_def serialize_room_def deserialize_room_def Let_def
      new_Classroom_def new_ConferenceRoom_def new_ComputerLab_def init_ComputerLab_def
      new_Laboratory_def)

text \<open>
  Claim C6, as amended. A reservation saved to the file repository is found again under
  its identifier, with the same identifier, room id, room name, room capacity, user name,
  start and end instants, purpose and status. Its room is of the class that the type tag
  selects by substring: Classroom if the tag contains ``Classroom'', else ConferenceRoom
  if it contains ``Conference'', else ComputerLab if it contains ``Computer'', else
  Laboratory. That is the class of the room saved whenever the room is a Classroom, a
  ConferenceRoom, a ComputerLab, or a Laboratory whose lab type contains none of the three
  words; and the type text is the one of the room saved whenever the room is of the first
  three classes or a Laboratory of lab type ``General''.
\<close>

theorem file_round_trip:
  fixes r :: reservation and f :: file_content
  defines "r' \<equiv> reload r"
  shows "FileRepository_find_by_id (reservation_id r) (snd (FileRepository_save True r f)) =
           Some r' \<and>
         reservation_id r' = reservation_id r \<and>
         room_id (room r') = room_id (room r) \<and>
         name (room r') = name (room r) \<and>
         capacity (room r') = capacity (room r) \<and>
         user_name r' = user_name r \<and>
         start_time r' = start_time r \<and>
         end_time r' = end_time r \<and>
         purpose r' = purpose r \<and>
         status r' = status r \<and>
         class_of (room r') =
           (if is_substring ''Classroom'' (get_room_type (room r)) then ClassroomC
            else if is_substring ''Conference'' (get_room_type (room r)) then ConferenceRoomC
            else if is_substring ''Computer'' (get_room_type (room r)) then ComputerLabC
            else LaboratoryC) \<and>
         ((case room r of
             Laboratory _ _ _ t _ \<Rightarrow>
               \<not> is_substring ''Classroom'' t \<and> \<not> is_substring ''Conference'' t \<and>
               \<not> is_substring ''Computer'' t
           | _ \<Rightarrow> True) \<longrightarrow>
          class_of (room r') = class_of (room r)) \<and>
         ((case room r of Laboratory _ _ _ t _ \<Rightarrow> t = ''General'' | _ \<Rightarrow> True) \<longrightarrow>
          get_room_type (room r') = get_room_type (room r))"
  unfolding r'_def
  using class_kept [of r] tag_kept [of r]
  by (simp add: find_after_save reload_fields reload_room_fields class_of_reload)

lemma reload_res_chem:
  "reload res_chem = res_chem\<lparr>room := Laboratory ''LAB-302'' ''Chem Lab'' 25 ''General'' True\<rparr>"
  by (simp add: reload_def res_chem_def chem_lab_def Reservation_def serialize_room_def
      deserialize_room_def new_Laboratory_def)

lemma reload_res_a1: "reload res_a1 = res_a1"
  by (simp add: reload_def example_defs serialize_room_def deserialize_room_def)

lemma reload_res_lab:
  "reload res_lab = res_lab\<lparr>room := ComputerLab ''LAB-301'' ''CS Lab'' 20 20 True\<rparr>"
  by (simp add: reload_def res_lab_def cs_lab_def Reservation_def serialize_room_def
      deserialize_room_def new_ComputerLab_def init_ComputerLab_def)

lemma example_ids:
  "reservation_id res_chem = ''RES-L2''" "reservation_id res_a1 = ''RES-A1''"
  "reservation_id res_lab = ''RES-L1''"
  by (simp_all add: res_chem_def res_lab_def res_a1_def Reservation_def)

lemma room_examples:
  "room res_chem = Laboratory ''LAB-302'' ''Chem Lab'' 25 ''Chemistry'' True"
  "room res_a1 = Classroom ''CL-101'' ''Room A'' 30 True True"
  "room res_lab = Laboratory ''LAB-301'' ''CS Lab'' 20 ''Computer Science'' True"
  by (simp_all add: res_chem_def chem_lab_def res_lab_def cs_lab_def example_defs)

text \<open>
  A classroom booking comes back as it was, even into a damaged file; a chemistry
  laboratory comes back as a laboratory, of lab type ``General''.
\<close>

theorem file_round_trip_witness:
  "FileRepository_find_by_id ''RES-A1'' (snd (FileRepository_save True res_a1 file_damaged)) =
     Some res_a1 \<and>
   FileRepository_find_by_id ''RES-L2'' (snd (FileRepository_save True res_chem file_example)) =
     Some (res_chem\<lparr>room := Laboratory ''LAB-302'' ''Chem Lab'' 25 ''General'' True\<rparr>) \<and>
   class_of (room (reload res_chem)) = class_of (room res_chem) \<and>
   get_room_type (room (reload res_a1)) = get_room_type (room res_a1)"
  using file_round_trip [of res_a1 file_damaged] file_round_trip [of res_chem file_example]
  unfolding example_ids
  by (simp add: reload_res_chem reload_res_a1 room_examples)

text \<open>
  The claim as stated fails: the laboratory of lab type ``Computer Science'' has the type
  tag ``Laboratory (Computer Science)'', which contains ``Computer'', and comes back from
  the file as a ComputerLab of type ``Computer Lab''.
\<close>

theorem file_round_trip_counterexample:
  "FileRepository_find_by_id ''RES-L1''
     (snd (FileRepository_save True res_lab (FileRepository_init NoFile))) =
     Some (res_lab\<lparr>room := ComputerLab ''LAB-301'' ''CS Lab'' 20 20 True\<rparr>) \<and>
   room res_lab = Laboratory ''LAB-301'' ''CS Lab'' 20 ''Computer Science'' True \<and>
   get_room_type (room res_lab) = ''Laboratory (Computer Science)'' \<and>
   get_room_type (ComputerLab ''LAB-301'' ''CS Lab'' 20 20 True) = ''Computer Lab''"
  using find_after_save [of res_lab "FileRepository_init NoFile"]
  unfolding example_ids reload_res_lab
  by (simp add: room_examples)

subsection \<open>No two live reservations of a room overlap\<close>

lemma conflict_sym: "conflict a b \<longleftrightarrow> conflict b a"
  by (auto simp add: conflict_def)

lemma conflict_free_Nil: "conflict_free []"
  by (simp add: conflict_free_def)

lemma conflict_free_Cons:
  "conflict_free (x # xs) \<longleftrightarrow> (\<forall>y \<in> set xs. \<not> conflict x y) \<and> conflict_free xs"
  by (simp add: conflict_free_def)

lemma conflict_reload: "conflict (reload a) (reload b) = conflict a b"
  by (simp add: conflict_def reload_fields reload_room_fields)

lemma conflict_free_map_reload: "conflict_free (map reload xs) = conflict_free xs"
  by (simp add: conflict_free_def sorted_wrt_map conflict_reload)

lemma set_upsert: "set (upsert r xs) \<subseteq> insert r (set xs)"
  by (induction xs) (auto simp add: upsert_Nil upsert_Cons)

lemma conflict_free_upsert:
  assumes "conflict_free xs" "\<forall>x \<in> set xs. \<not> conflict r x"
  shows "conflict_free (upsert r xs)"
  using assms
proof (induction xs)
  case Nil
  then show ?case by (simp add: upsert_Nil conflict_free_Cons conflict_free_Nil)
next
  case (Cons x xs)
  show ?case
  proof (cases "reservation_id x = reservation_id r")
    case True
    then show ?thesis using Cons.prems by (simp add: upsert_Cons conflict_free_Cons)
  next
    case False
    have "\<forall>y \<in> set (upsert r xs). \<not> conflict x y"
      using Cons.prems set_upsert [of r xs] conflict_sym [of x r]
      by (auto simp add: conflict_free_Cons)
    then show ?thesis using False Cons by (simp add: upsert_Cons conflict_free_Cons)
  qed
qed

lemma dict_values_simps:
  "dict_values [] = []" "dict_values (p # d) = snd p # dict_values d"
  by (simp_all add: dict_values_def)

lemma set_values_dict_set: "set (dict_values (dict_set k v d)) \<subseteq> insert v (set (dict_values d))"
  by (induction d) (auto simp add: dict_values_simps)

lemma conflict_free_dict_set:
  assumes "conflict_free (dict_values d)" "\<forall>x \<in> set (dict_values d). \<not> conflict v x"
  shows "conflict_free (dict_values (dict_set k v d))"
  using assms
proof (induction d)
  case Nil
  then show ?case by (simp add: dict_values_simps conflict_free_Cons conflict_free_Nil)
next
  case (Cons p d)
  show ?case
  proof (cases "fst p = k")
    case True
    then show ?thesis using Cons.prems by (simp add: dict_values_simps conflict_free_Cons)
  next
    case False
    have old: "\<forall>y \<in> set (dict_values d). \<not> conflict (snd p) y" and "\<not> conflict (snd p) v"
      using Cons.prems conflict_sym [of "snd p" v]
      by (simp_all add: dict_values_simps conflict_free_Cons)
    then have "\<forall>y \<in> set (dict_values (dict_set k v d)). \<not> conflict (snd p) y"
      using set_values_dict_set [of k v d] by blast
    moreover have "conflict_free (dict_values (dict_set k v d))"
      using Cons by (simp add: dict_values_simps conflict_free_Cons)
    ultimately show ?thesis using False
      by (simp add: dict_values_simps conflict_free_Cons)
  qed
qed

lemma no_hit_no_conflict:
  assumes "overlapping_loop rm s e rs [] = []" "x \<in> set rs"
  shows "\<not> conflict (Reservation rid rm un s e pu) x"
  using assms
  by (auto simp add: overlapping_loop_filter filter_empty_conv conflict_def Reservation_def
      overlaps_with_def)

lemma Reservation_id: "reservation_id (Reservation rid rm un s e pu) = rid"
  by (simp add: Reservation_def)

lemma cancelled_no_conflict: "\<not> conflict (cancel r) x"
  by (simp add: conflict_def cancel_def)

lemma mem_step_conflict_free:
  assumes "conflict_free (dict_values d)"
  shows "conflict_free (dict_values (fst (service_step InMemoryRepository op (d, sent))))"
proof (cases op)
  case (CreateOp rid rm un s e pu)
  show ?thesis
  proof (cases "s < e \<and> InMemoryRepository_find_by_room_and_time rm s e d = []")
    case True
    then have "\<forall>x \<in> set (dict_values d). \<not> conflict (Reservation rid rm un s e pu) x"
      using no_hit_no_conflict [of rm s e "dict_values d"]
      by (simp add: InMemoryRepository_find_by_room_and_time_def)
    then have "conflict_free (dict_values (dict_set rid (Reservation rid rm un s e pu) d))"
      using assms by (rule conflict_free_dict_set [rotated])
    then show ?thesis using True CreateOp
      by (simp add: create_reservation_def validate_time_range_def check_availability_def
          InMemoryRepository_save_def Reservation_id Let_def)
  next
    case False
    then show ?thesis using assms CreateOp
      by (auto simp add: create_reservation_def validate_time_range_def check_availability_def
          Let_def)
  qed
next
  case (CancelOp rid)
  show ?thesis
  proof (cases "InMemoryRepository_find_by_id rid d")
    case None
    then show ?thesis using assms CancelOp by (simp add: cancel_reservation_def)
  next
    case (Some r)
    have "conflict_free (dict_values (dict_set (reservation_id (cancel r)) (cancel r) d))"
      using assms cancelled_no_conflict by (intro conflict_free_dict_set) auto
    then show ?thesis using assms CancelOp Some
      by (simp add: cancel_reservation_def InMemoryRepository_save_def Let_def)
  qed
qed


lemma file_save_load:
  "load_reservations (snd (FileRepository_save io_ok r f)) =
     (if io_ok then map reload (upsert r (load_reservations f)) else load_reservations f)"
  by (simp add: FileRepository_save_def save_reservations_def load_written)

lemma file_save_conflict_free:
  assumes "conflict_free (load_reservations f)" "\<forall>x \<in> set (load_reservations f). \<not> conflict r x"
  shows "conflict_free (load_reservations (snd (FileRepository_save io_ok r f)))"
  using assms conflict_free_upsert [of "load_reservations f" r]
  by (simp add: file_save_load conflict_free_map_reload)

lemma file_step_conflict_free:
  assumes "conflict_free (load_reservations f)"
  shows "conflict_free (load_reservations (fst (service_step (FileRepository io_ok) op (f, sent))))"
proof (cases op)
  case (CreateOp rid rm un s e pu)
  show ?thesis
  proof (cases "s < e \<and> FileRepository_find_by_room_and_time rm s e f = []")
    case True
    then have "\<forall>x \<in> set (load_reservations f). \<not> conflict (Reservation rid rm un s e pu) x"
      using no_hit_no_conflict [of rm s e "load_reservations f"]
      by (simp add: FileRepository_find_by_room_and_time_def)
    then have "conflict_free (load_reservations
        (snd (FileRepository_save io_ok (Reservation rid rm un s e pu) f)))"
      using assms by (intro file_save_conflict_free)
    then show ?thesis using True CreateOp
      by (auto simp add: create_reservation_def validate_time_range_def check_availability_def
          Let_def split: prod.splits)
  next
    case False
    then show ?thesis using assms CreateOp
      by (auto simp add: create_reservation_def validate_time_range_def check_availability_def
          Let_def)
  qed
next
  case (CancelOp rid)
  show ?thesis
  proof (cases "FileRepository_find_by_id rid f")
    case None
    then show ?thesis using assms CancelOp by (simp add: cancel_reservation_def)
  next
    case (Some r)
    have "conflict_free (load_reservations (snd (FileRepository_save io_ok (cancel r) f)))"
      using assms cancelled_no_conflict by (intro file_save_conflict_free) auto
    then show ?thesis using assms CancelOp Some
      by (auto simp add: cancel_reservation_def Let_def split: prod.splits)
  qed
qed

lemma mem_run_conflict_free:
  "conflict_free (dict_values (fst state)) \<Longrightarrow>
   conflict_free (dict_values (fst (run_service (\<lambda>_. InMemoryRepository) ops state)))"
proof (induction ops arbitrary: state)
  case Nil
  then show ?case by simp
next
  case (Cons step ops)
  obtain env op where step: "step = (env, op)" by (cases step)
  obtain d sent where state: "state = (d, sent)" by (cases state)
  show ?case
    using Cons.IH [of "service_step InMemoryRepository op (d, sent)"]
      mem_step_conflict_free [of d op sent] Cons.prems
    by (simp add: step state)
qed

lemma file_run_conflict_free:
  "conflict_free (load_reservations (fst state)) \<Longrightarrow>
   conflict_free (load_reservations (fst (run_service FileRepository ops state)))"
proof (induction ops arbitrary: state)
  case Nil
  then show ?case by simp
next
  case (Cons step ops)
  obtain io_ok op where step: "step = (io_ok, op)" by (cases step)
  obtain f sent where state: "state = (f, sent)" by (cases state)
  show ?case
    using Cons.IH [of "service_step (FileRepository io_ok) op (f, sent)"]
      file_step_conflict_free [of f io_ok op sent] Cons.prems
    by (simp add: step state)
qed

lemma conflict_free_nth:
  assumes "conflict_free rs" "i < j" "j < length rs"
  shows "\<not> conflict (rs ! i) (rs ! j)"
  using assms by (simp add: conflict_free_def sorted_wrt_iff_nth_less)


text \<open>
  Claim C1. After any sequence of \<^verbatim>\<open>create_reservation\<close> and \<^verbatim>\<open>cancel_reservation\<close>
  calls on a service whose repository started empty (the in-memory repository, or the
  file repository on a fresh file, with write faults on any of the calls), no two of the
  stored reservations that are both not CANCELLED and have the same \<open>room_id\<close> overlap,
  where two intervals overlap iff \<open>start_A < end_B\<close> and \<open>start_B < end_A\<close>; intervals
  that touch at an endpoint do not.
\<close>

theorem no_overlapping_reservations:
  fixes mem_ops :: "(unit \<times> service_op) list" and file_ops :: "(bool \<times> service_op) list"
  defines "mem_store \<equiv> InMemoryRepository_find_all
             (fst (run_service (\<lambda>_. InMemoryRepository) mem_ops (InMemoryRepository_init, [])))"
    and "file_store \<equiv> FileRepository_find_all
             (fst (run_service FileRepository file_ops (FileRepository_init NoFile, [])))"
    and "separate \<equiv> (\<lambda>stored :: reservation list.
             \<forall>i j. i < j \<and> j < length stored \<and>
                   status (stored ! i) \<noteq> ''CANCELLED'' \<and> status (stored ! j) \<noteq> ''CANCELLED'' \<and>
                   room_id (room (stored ! i)) = room_id (room (stored ! j)) \<longrightarrow>
                   \<not> (start_time (stored ! i) < end_time (stored ! j) \<and>
                      start_time (stored ! j) < end_time (stored ! i)))"
  shows "separate mem_store \<and> separate file_store"
proof -
  have "conflict_free mem_store"
    unfolding mem_store_def InMemoryRepository_find_all_def
    by (rule mem_run_conflict_free)
      (simp add: InMemoryRepository_init_def dict_values_simps conflict_free_Nil)
  moreover have "conflict_free file_store"
    unfolding file_store_def FileRepository_find_all_def
    by (rule file_run_conflict_free)
      (simp add: FileRepository_init_def ensure_file_exists_def load_reservations_def
        conflict_free_Nil)
  ultimately show ?thesis
    unfolding separate_def using conflict_free_nth
    by (auto simp add: conflict_def)
qed

lemma mem_run_example:
  "fst (run_service (\<lambda>_. InMemoryRepository) (map (Pair ()) booking_ops)
     (InMemoryRepository_init, [])) =
   [(''RES-1'', cancel res_1), (''RES-3'', res_3), (''RES-4'', res_4)]"
  by (simp add: booking_ops_def InMemoryRepository_init_def create_reservation_def
      cancel_reservation_def validate_time_range_def check_availability_def Let_def
      InMemoryRepository_find_by_room_and_time_def InMemoryRepository_find_by_id_def
      InMemoryRepository_save_def dict_values_simps overlaps_with_def
      res_1_def res_3_def res_4_def Reservation_def cancel_def room_a_def new_Classroom_def)


lemma mem_store_example:
  "InMemoryRepository_find_all (fst (run_service (\<lambda>_. InMemoryRepository)
     (map (Pair ()) booking_ops) (InMemoryRepository_init, []))) =
   [cancel res_1, res_3, res_4]"
  by (simp add: mem_run_example InMemoryRepository_find_all_def dict_values_simps)

lemma file_store_example:
  "FileRepository_find_all (fst (run_service FileRepository file_booking_ops
     (FileRepository_init NoFile, []))) =
   [cancel res_1, res_3, res_4]"
  by (simp add: file_booking_ops_def FileRepository_init_def ensure_file_exists_def
      create_reservation_def cancel_reservation_def validate_time_range_def
      check_availability_def Let_def FileRepository_find_by_room_and_time_def
      FileRepository_find_by_id_def FileRepository_find_all_def FileRepository_save_def
      save_reservations_def load_reservations_def load_item_def serialize_reservation_def
      serialize_room_def deserialize_room_def isoformat_def upsert_def overlaps_with_def
      res_1_def res_3_def res_4_def Reservation_def cancel_def room_a_def new_Classroom_def)

text \<open>
  A run on both repositories: a booking of room A from 100 to 200, an overlapping one that
  is rejected, one from 200 to 300 that touches the first and is accepted (on the file
  after a write fault), the cancellation of the first and a new booking of its slot. The
  store holds the cancelled booking and the two touching ones.
\<close>

theorem no_overlapping_reservations_witness:
  "InMemoryRepository_find_all (fst (run_service (\<lambda>_. InMemoryRepository)
     (map (Pair ()) booking_ops) (InMemoryRepository_init, []))) =
     [cancel res_1, res_3, res_4] \<and>
   FileRepository_find_all (fst (run_service FileRepository file_booking_ops
     (FileRepository_init NoFile, []))) =
     [cancel res_1, res_3, res_4] \<and>
   status res_3 \<noteq> ''CANCELLED'' \<and> status res_4 \<noteq> ''CANCELLED'' \<and>
   room_id (room res_3) = room_id (room res_4) \<and>
   \<not> (start_time res_3 < end_time res_4 \<and> start_time res_4 < end_time res_3)"
proof -
  note claim = no_overlapping_reservations [of "map (Pair ()) booking_ops" file_booking_ops,
      unfolded mem_store_example file_store_example]
  have fields: "status res_3 \<noteq> ''CANCELLED''" "status res_4 \<noteq> ''CANCELLED''"
    "room_id (room res_3) = room_id (room res_4)"
    by (simp_all add: res_3_def res_4_def Reservation_def)
  from claim have "\<forall>i j. i < j \<and> j < length [cancel res_1, res_3, res_4] \<and>
      status ([cancel res_1, res_3, res_4] ! i) \<noteq> ''CANCELLED'' \<and>
      status ([cancel res_1, res_3, res_4] ! j) \<noteq> ''CANCELLED'' \<and>
      room_id (room ([cancel res_1, res_3, res_4] ! i)) =
      room_id (room ([cancel res_1, res_3, res_4] ! j)) \<longrightarrow>
      \<not> (start_time ([cancel res_1, res_3, res_4] ! i) < end_time ([cancel res_1, res_3, res_4] ! j) \<and>
         start_time ([cancel res_1, res_3, res_4] ! j) < end_time ([cancel res_1, res_3, res_4] ! i))"
    by (rule conjunct1)
  then have "1 < (2::nat) \<and> 2 < length [cancel res_1, res_3, res_4] \<and>
      status ([cancel res_1, res_3, res_4] ! 1) \<noteq> ''CANCELLED'' \<and>
      status ([cancel res_1, res_3, res_4] ! 2) \<noteq> ''CANCELLED'' \<and>
      room_id (room ([cancel res_1, res_3, res_4] ! 1)) =
      room_id (room ([cancel res_1, res_3, res_4] ! 2)) \<longrightarrow>
      \<not> (start_time ([cancel res_1, res_3, res_4] ! 1) < end_time ([cancel res_1, res_3, res_4] ! 2) \<and>
         start_time ([cancel res_1, res_3, res_4] ! 2) < end_time ([cancel res_1, res_3, res_4] ! 1))"
    by blast
  then have "\<not> (start_time res_3 < end_time res_4 \<and> start_time res_4 < end_time res_3)"
    using fields by simp
  then show ?thesis
    using fields mem_store_example file_store_example by simp
qed

subsection \<open>The two repositories, call by call\<close>

lemma reload_idem: "reload (reload r) = reload r"
proof -
  have "deserialize_room (serialize_room (deserialize_room j)) = deserialize_room j" for j
    by (simp add: deserialize_room_def serialize_room_def Let_def new_Classroom_def
        new_ConferenceRoom_def new_ComputerLab_def init_ComputerLab_def new_Laboratory_def)
  then show ?thesis by (simp add: reload_def)
qed

lemma keys_ok_simps:
  "keys_ok []" "keys_ok (p # d) \<longleftrightarrow> fst p = reservation_id (snd p) \<and> keys_ok d"
  by (simp_all add: keys_ok_def)

lemma keys_ok_dict_set: "keys_ok d \<Longrightarrow> keys_ok (dict_set (reservation_id r) r d)"
  by (induction d) (simp_all add: keys_ok_simps)

lemma keys_ok_dict_del: "keys_ok d \<Longrightarrow> keys_ok (dict_del rid d)"
  by (simp add: keys_ok_def dict_del_def)

lemma values_dict_set:
  "keys_ok d \<Longrightarrow> dict_values (dict_set (reservation_id r) r d) = upsert r (dict_values d)"
  by (induction d) (simp_all add: keys_ok_simps dict_values_simps upsert_Nil upsert_Cons)

lemma values_dict_del:
  "keys_ok d \<Longrightarrow>
   dict_values (dict_del rid d) = filter (\<lambda>r. reservation_id r \<noteq> rid) (dict_values d)"
  by (induction d) (simp_all add: keys_ok_simps dict_values_simps dict_del_def)

lemma dict_get_first:
  "keys_ok d \<Longrightarrow> dict_get d rid = first_with_id rid (dict_values d)"
  by (induction d) (simp_all add: keys_ok_simps dict_values_simps)

lemma upsert_map_reload:
  "map reload (upsert r (map reload xs)) = map reload (upsert r xs)"
  by (induction xs) (simp_all add: upsert_Nil upsert_Cons reload_fields reload_idem)

lemma filter_id_map_reload:
  "map reload (filter (\<lambda>r. reservation_id r \<noteq> rid) (map reload xs)) =
   map reload (filter (\<lambda>r. reservation_id r \<noteq> rid) xs)"
  by (induction xs) (simp_all add: reload_fields reload_idem)

lemma overlapping_map_reload:
  "overlapping_loop rm s e (map reload xs) [] = map reload (overlapping_loop rm s e xs [])"
  unfolding overlapping_loop_filter
  by (induction xs) (simp_all add: reload_fields reload_room_fields overlaps_with_def)

lemma related_init: "related InMemoryRepository_init (FileRepository_init NoFile)"
  by (simp add: related_def InMemoryRepository_init_def FileRepository_init_def
      ensure_file_exists_def keys_ok_simps dict_values_simps load_reservations_def)

lemma related_save:
  assumes "related d f"
  shows "related (snd (InMemoryRepository_save r d)) (snd (FileRepository_save True r f))"
  using assms
  by (simp add: related_def InMemoryRepository_save_def keys_ok_dict_set values_dict_set
      file_save_load upsert_map_reload)

lemma dict_del_absent: "\<not> dict_contains d rid \<Longrightarrow> dict_del rid d = d"
  by (auto simp add: dict_contains_def dict_del_def filter_id_conv)

lemma mem_delete_alt: "InMemoryRepository_delete rid d = (dict_contains d rid, dict_del rid d)"
  by (simp add: InMemoryRepository_delete_def dict_del_absent)

lemma related_delete:
  assumes "related d f"
  shows "related (snd (InMemoryRepository_delete rid d)) (snd (FileRepository_delete True rid f))"
  using assms
  by (simp add: related_def mem_delete_alt FileRepository_delete_def
      save_reservations_def load_written keys_ok_dict_del values_dict_del
      filter_id_map_reload)


lemma run_calls_snoc:
  "run_calls repo (cs @ [c]) st =
     run_calls repo cs st @ [fst (do_call repo c (run_state repo cs st))]"
  by (induction cs arbitrary: st) (simp_all add: split_beta)

lemma dict_get_contains: "dict_get d k \<noteq> None \<longleftrightarrow> dict_contains d k"
  by (induction d) (auto simp add: dict_contains_def)

lemma call_related:
  assumes "related d f"
  shows "related (snd (do_call InMemoryRepository c d)) (snd (do_call (FileRepository True) c f))"
proof (cases c)
  case (SaveCall r)
  then show ?thesis using related_save [OF assms, of r] by (simp add: split_beta)
next
  case (DeleteCall rid)
  then show ?thesis using related_delete [OF assms, of rid] by (simp add: split_beta)
qed (use assms in simp_all)

lemma call_agrees:
  assumes "related d f"
    and "\<forall>rid. c = DeleteCall rid \<longrightarrow> InMemoryRepository_find_by_id rid d \<noteq> None"
  shows "fst (do_call (FileRepository True) c f) = reloaded (fst (do_call InMemoryRepository c d))"
proof (cases c)
  case (SaveCall r)
  then show ?thesis
    by (simp add: split_beta InMemoryRepository_save_def FileRepository_save_def
        save_reservations_def)
next
  case (FindByIdCall rid)
  then show ?thesis
    using assms(1)
    by (simp add: related_def InMemoryRepository_find_by_id_def FileRepository_find_by_id_def
        dict_get_first first_with_id_map_reload)
next
  case (FindByRoomAndTimeCall rm s e)
  then show ?thesis
    using assms(1)
    by (simp add: related_def InMemoryRepository_find_by_room_and_time_def
        FileRepository_find_by_room_and_time_def overlapping_map_reload)
next
  case FindAllCall
  then show ?thesis
    using assms(1)
    by (simp add: related_def InMemoryRepository_find_all_def FileRepository_find_all_def)
next
  case (DeleteCall rid)
  then have "dict_contains d rid"
    using assms(2) dict_get_contains [of d rid]
    by (auto simp add: InMemoryRepository_find_by_id_def)
  then show ?thesis
    using DeleteCall
    by (simp add: split_beta InMemoryRepository_delete_def FileRepository_delete_def
        save_reservations_def)
qed

lemma related_run:
  "related d f \<Longrightarrow>
   related (run_state InMemoryRepository cs d) (run_state (FileRepository True) cs f)"
proof (induction cs arbitrary: d f)
  case Nil
  then show ?case by simp
next
  case (Cons c cs)
  from Cons.IH [OF call_related [OF Cons.prems, of c]] show ?case by simp
qed

lemma all_fixed_map: "all_fixed rs \<Longrightarrow> map reload rs = rs"
  by (simp add: all_fixed_def map_idI)

lemma all_fixed_subset: "all_fixed rs \<Longrightarrow> set rs' \<subseteq> set rs \<Longrightarrow> all_fixed rs'"
  by (auto simp add: all_fixed_def)

lemma dict_get_in_values: "dict_get d rid = Some r \<Longrightarrow> r \<in> set (dict_values d)"
  by (induction d) (auto simp add: dict_values_simps split: if_splits)

lemma fixed_call:
  assumes "all_fixed (dict_values d)" "\<forall>r. c = SaveCall r \<longrightarrow> reload r = r"
  shows "reloaded (fst (do_call InMemoryRepository c d)) = fst (do_call InMemoryRepository c d) \<and>
         all_fixed (dict_values (snd (do_call InMemoryRepository c d)))"
proof (cases c)
  case (SaveCall r)
  then have "reload r = r" using assms(2) by simp
  then have "all_fixed (dict_values (dict_set (reservation_id r) r d))"
    using assms(1) set_values_dict_set [of "reservation_id r" r d]
    by (auto simp add: all_fixed_def)
  then show ?thesis using SaveCall by (simp add: InMemoryRepository_save_def)
next
  case (FindByIdCall rid)
  show ?thesis
  proof (cases "dict_get d rid")
    case None
    then show ?thesis using FindByIdCall assms(1) by (simp add: InMemoryRepository_find_by_id_def)
  next
    case (Some r)
    then have "reload r = r" using assms(1) dict_get_in_values by (auto simp add: all_fixed_def)
    then show ?thesis using FindByIdCall Some assms(1)
      by (simp add: InMemoryRepository_find_by_id_def)
  qed
next
  case (FindByRoomAndTimeCall rm s e)
  have "all_fixed (overlapping_loop rm s e (dict_values d) [])"
    using assms(1) by (auto simp add: all_fixed_def overlapping_loop_filter)
  then show ?thesis using FindByRoomAndTimeCall assms(1)
    by (simp add: InMemoryRepository_find_by_room_and_time_def all_fixed_map)
next
  case FindAllCall
  then show ?thesis using assms(1) by (simp add: InMemoryRepository_find_all_def all_fixed_map)
next
  case (DeleteCall rid)
  have "all_fixed (dict_values (dict_del rid d))"
    using assms(1) by (auto simp add: all_fixed_def dict_values_def dict_del_def)
  then show ?thesis using DeleteCall by (simp add: mem_delete_alt)
qed

lemma fixed_result:
  assumes "all_fixed (dict_values d)"
  shows "reloaded (fst (do_call InMemoryRepository c d)) = fst (do_call InMemoryRepository c d)"
proof (cases c)
  case (SaveCall r)
  then show ?thesis by (simp add: split_beta)
qed (use fixed_call [OF assms, of c] in simp_all)

lemma fixed_state_run:
  "all_fixed (dict_values d) \<Longrightarrow> \<forall>r. SaveCall r \<in> set cs \<longrightarrow> reload r = r \<Longrightarrow>
   all_fixed (dict_values (run_state InMemoryRepository cs d))"
proof (induction cs arbitrary: d)
  case Nil
  then show ?case by simp
next
  case (Cons c cs)
  have "all_fixed (dict_values (snd (do_call InMemoryRepository c d)))"
    using fixed_call [of d c] Cons.prems by simp
  from Cons.IH [OF this] Cons.prems(2) show ?case by simp
qed

text \<open>
  Claim C4, as amended. Take any sequence of calls to \<^verbatim>\<open>save\<close>, \<^verbatim>\<open>find_by_id\<close>,
  \<^verbatim>\<open>find_by_room_and_time\<close>, \<^verbatim>\<open>find_all\<close> and \<^verbatim>\<open>delete\<close> applied to an
  in-memory repository and to a file repository on a fresh file (no write faults, no other
  writer), and any call that follows it. Unless the call is a \<^verbatim>\<open>delete\<close> of an
  identifier that is not stored, the file repository returns what the in-memory
  repository returns with the room of every returned reservation rebuilt from its type
  tag, lists in the same order; \<^verbatim>\<open>save\<close> returns true in both, and \<^verbatim>\<open>delete\<close> of a
  stored identifier returns true in both. When every reservation saved so far has a room
  that the rebuilding reproduces, the two results are equal. (What \<^verbatim>\<open>delete\<close> returns
  for an identifier that is not stored is not part of this statement.)
\<close>

theorem repositories_agree:
  fixes cs :: "repo_call list" and c :: repo_call
  defines "d \<equiv> run_state InMemoryRepository cs InMemoryRepository_init"
    and "f \<equiv> run_state (FileRepository True) cs (FileRepository_init NoFile)"
  defines "in_mem \<equiv> fst (do_call InMemoryRepository c d)"
    and "in_file \<equiv> fst (do_call (FileRepository True) c f)"
  shows "run_calls InMemoryRepository (cs @ [c]) InMemoryRepository_init =
           run_calls InMemoryRepository cs InMemoryRepository_init @ [in_mem] \<and>
         run_calls (FileRepository True) (cs @ [c]) (FileRepository_init NoFile) =
           run_calls (FileRepository True) cs (FileRepository_init NoFile) @ [in_file] \<and>
         ((\<forall>rid. c = DeleteCall rid \<longrightarrow> InMemoryRepository_find_by_id rid d \<noteq> None) \<longrightarrow>
            in_file = reloaded in_mem) \<and>
         (\<forall>r. c = SaveCall r \<longrightarrow> in_mem = Saved True \<and> in_file = Saved True) \<and>
         (\<forall>rid. c = DeleteCall rid \<and> InMemoryRepository_find_by_id rid d \<noteq> None \<longrightarrow>
            in_mem = Deleted True \<and> in_file = Deleted True) \<and>
         ((\<forall>r. SaveCall r \<in> set cs \<longrightarrow> reload r = r) \<and>
          (\<forall>rid. c = DeleteCall rid \<longrightarrow> InMemoryRepository_find_by_id rid d \<noteq> None) \<longrightarrow>
            in_file = in_mem)"
proof -
  have rel: "related d f"
    unfolding d_def f_def by (rule related_run [OF related_init])
  have links: "run_calls InMemoryRepository (cs @ [c]) InMemoryRepository_init =
           run_calls InMemoryRepository cs InMemoryRepository_init @ [in_mem]"
    "run_calls (FileRepository True) (cs @ [c]) (FileRepository_init NoFile) =
           run_calls (FileRepository True) cs (FileRepository_init NoFile) @ [in_file]"
    unfolding in_mem_def in_file_def d_def f_def by (rule run_calls_snoc)+
  have agree: "in_file = reloaded in_mem"
    if "\<forall>rid. c = DeleteCall rid \<longrightarrow> InMemoryRepository_find_by_id rid d \<noteq> None"
    unfolding in_mem_def in_file_def using rel that by (rule call_agrees)
  have saves: "in_mem = Saved True \<and> in_file = Saved True" if "c = SaveCall r" for r
    unfolding in_mem_def in_file_def using that
    by (simp add: split_beta InMemoryRepository_save_def FileRepository_save_def
        save_reservations_def)
  have deletes: "in_mem = Deleted True \<and> in_file = Deleted True"
    if "c = DeleteCall rid" "InMemoryRepository_find_by_id rid d \<noteq> None" for rid
  proof -
    have "dict_contains d rid"
      using that(2) dict_get_contains [of d rid]
      by (auto simp add: InMemoryRepository_find_by_id_def)
    then show ?thesis
      unfolding in_mem_def in_file_def using that(1)
      by (simp add: split_beta InMemoryRepository_delete_def FileRepository_delete_def
          save_reservations_def)
  qed
  have equal: "in_file = in_mem"
    if "\<forall>r. SaveCall r \<in> set cs \<longrightarrow> reload r = r"
      and "\<forall>rid. c = DeleteCall rid \<longrightarrow> InMemoryRepository_find_by_id rid d \<noteq> None"
  proof -
    have "all_fixed (dict_values d)"
      unfolding d_def using that(1)
      by (intro fixed_state_run)
        (simp_all add: all_fixed_def InMemoryRepository_init_def dict_values_simps)
    then have "reloaded in_mem = in_mem"
      unfolding in_mem_def by (rule fixed_result)
    with agree [OF that(2)] show ?thesis by simp
  qed
  from links agree saves deletes equal show ?thesis by blast
qed


lemma saved_example_state:
  "run_state InMemoryRepository saved_example InMemoryRepository_init =
     [(''RES-A1'', res_a1), (''RES-B1'', res_b1)]"
  by (simp add: saved_example_def InMemoryRepository_init_def InMemoryRepository_save_def
      res_a1_def res_b1_def Reservation_def)

lemma reload_res_b1: "reload res_b1 = res_b1"
  by (simp add: reload_def example_defs serialize_room_def deserialize_room_def)

lemma saved_example_fixed: "\<forall>r. SaveCall r \<in> set saved_example \<longrightarrow> reload r = r"
  by (auto simp add: saved_example_def reload_def example_defs serialize_room_def
      deserialize_room_def)

lemma saved_example_calls:
  "fst (do_call InMemoryRepository (DeleteCall ''RES-A1'')
     [(''RES-A1'', res_a1), (''RES-B1'', res_b1)]) = Deleted True"
  "fst (do_call InMemoryRepository FindAllCall
     [(''RES-A1'', res_a1), (''RES-B1'', res_b1)]) = FoundList [res_a1, res_b1]"
  "fst (do_call InMemoryRepository (FindByIdCall ''RES-B1'')
     [(''RES-A1'', res_a1), (''RES-B1'', res_b1)]) = Found (Some res_b1)"
  "InMemoryRepository_find_by_id ''RES-A1'' [(''RES-A1'', res_a1), (''RES-B1'', res_b1)] =
     Some res_a1"
  by (simp_all add: InMemoryRepository_delete_def dict_contains_def
      InMemoryRepository_find_all_def dict_values_simps InMemoryRepository_find_by_id_def)

text \<open>
  After two bookings with rooms of default equipment are saved: deleting the first,
  listing all, finding the second and saving a third give the same answers in both
  repositories.
\<close>

theorem repositories_agree_witness:
  "fst (do_call InMemoryRepository (DeleteCall ''RES-A1'')
     (run_state InMemoryRepository saved_example InMemoryRepository_init)) = Deleted True \<and>
   fst (do_call (FileRepository True) (DeleteCall ''RES-A1'')
     (run_state (FileRepository True) saved_example (FileRepository_init NoFile))) =
     Deleted True \<and>
   fst (do_call InMemoryRepository FindAllCall
     (run_state InMemoryRepository saved_example InMemoryRepository_init)) =
     FoundList [res_a1, res_b1] \<and>
   fst (do_call (FileRepository True) FindAllCall
     (run_state (FileRepository True) saved_example (FileRepository_init NoFile))) =
     FoundList [res_a1, res_b1] \<and>
   fst (do_call InMemoryRepository (FindByIdCall ''RES-B1'')
     (run_state InMemoryRepository saved_example InMemoryRepository_init)) =
     Found (Some res_b1) \<and>
   fst (do_call (FileRepository True) (FindByIdCall ''RES-B1'')
     (run_state (FileRepository True) saved_example (FileRepository_init NoFile))) =
     Found (Some res_b1) \<and>
   fst (do_call InMemoryRepository (SaveCall res_a2)
     (run_state InMemoryRepository saved_example InMemoryRepository_init)) = Saved True \<and>
   fst (do_call (FileRepository True) (SaveCall res_a2)
     (run_state (FileRepository True) saved_example (FileRepository_init NoFile))) =
     Saved True"
  using repositories_agree [where c = "DeleteCall ''RES-A1''" and cs = saved_example]
    repositories_agree [where c = "SaveCall res_a2" and cs = saved_example]
    repositories_agree [where c = FindAllCall and cs = saved_example]
    repositories_agree [where c = "FindByIdCall ''RES-B1''" and cs = saved_example]
    saved_example_fixed
  unfolding saved_example_state saved_example_calls
  by (simp add: saved_example_calls reload_res_a1 reload_res_b1)

text \<open>
  The claim as stated fails: after saving the booking of the ``Computer Science''
  laboratory, \<^verbatim>\<open>find_by_id\<close> returns it with its laboratory from memory and with a
  ComputerLab from the file.
\<close>

theorem repositories_agree_counterexample:
  "run_calls InMemoryRepository [SaveCall res_lab, FindByIdCall ''RES-L1'']
     InMemoryRepository_init =
     [Saved True, Found (Some res_lab)] \<and>
   run_calls (FileRepository True) [SaveCall res_lab, FindByIdCall ''RES-L1'']
     (FileRepository_init NoFile) =
     [Saved True, Found (Some (res_lab\<lparr>room := ComputerLab ''LAB-301'' ''CS Lab'' 20 20 True\<rparr>))] \<and>
   room res_lab = Laboratory ''LAB-301'' ''CS Lab'' 20 ''Computer Science'' True"
  using find_after_save [of res_lab "FileRepository_init NoFile"]
  unfolding example_ids reload_res_lab
  by (simp add: room_examples InMemoryRepository_init_def InMemoryRepository_save_def
      InMemoryRepository_find_by_id_def example_ids split_beta FileRepository_save_def
      save_reservations_def)


text \<open>
  What holds of \<^verbatim>\<open>delete\<close> in both repositories: the identifier is not found
  afterwards. The in-memory repository answers whether it was stored; the file
  repository answers true whenever the file can be written.
\<close>

lemma dict_get_dict_del: "dict_get (dict_del rid d) rid = None"
  by (induction d) (simp_all add: dict_del_def)

lemma InMemoryRepository_delete_present:
  "dict_contains d rid \<Longrightarrow>
   fst (InMemoryRepository_delete rid d) \<and>
   InMemoryRepository_find_by_id rid (snd (InMemoryRepository_delete rid d)) = None"
  by (simp add: InMemoryRepository_delete_def InMemoryRepository_find_by_id_def dict_get_dict_del)

lemma InMemoryRepository_delete_absent:
  "\<not> dict_contains d rid \<Longrightarrow> InMemoryRepository_delete rid d = (False, d)"
  by (simp add: InMemoryRepository_delete_def)

lemma first_with_id_filtered:
  "first_with_id rid (filter (\<lambda>r. reservation_id r \<noteq> rid) rs) = None"
  by (induction rs) simp_all

lemma FileRepository_delete_removes:
  "FileRepository_find_by_id rid (snd (FileRepository_delete True rid f)) = None"
  by (simp add: FileRepository_find_by_id_def FileRepository_delete_def save_reservations_def
      load_written first_with_id_map_reload first_with_id_filtered)

lemma FileRepository_delete_always_True:
  "fst (FileRepository_delete True rid f)"
  by (simp add: FileRepository_delete_def save_reservations_def)

subsection \<open>What the service stores, on the two repositories\<close>

text \<open>
  On the two repositories of the source, a reservation that \<^verbatim>\<open>create_reservation\<close>
  returns is found under its identifier afterwards, and a cancellation that succeeds is
  found as CANCELLED (from the file, with the room rebuilt).
\<close>

lemma first_with_id_Some: "first_with_id rid rs = Some r \<Longrightarrow> reservation_id r = rid"
  by (induction rs) (auto split: if_splits)

lemma dict_get_dict_set: "dict_get (dict_set k v d) k = Some v"
  by (induction d) simp_all

lemma cancel_fields:
  "reservation_id (cancel r) = reservation_id r" "status (cancel r) = ''CANCELLED''"
  by (simp_all add: cancel_def)

lemma cancel_persisted_in_file:
  assumes "FileRepository_find_by_id rid f = Some r" "status r \<noteq> ''CANCELLED''"
  shows "cancel_reservation (FileRepository True) rid (f, sent) =
           (True, (snd (FileRepository_save True (cancel r) f), sent @ [NotifyCancelled (cancel r)])) \<and>
         FileRepository_find_by_id rid (snd (FileRepository_save True (cancel r) f)) =
           Some (reload (cancel r))"
proof -
  have rid: "reservation_id (cancel r) = rid"
    using assms(1) first_with_id_Some by (simp add: FileRepository_find_by_id_def cancel_fields)
  show ?thesis
    using assms find_after_save [of "cancel r" f]
    by (simp add: rid cancel_reservation_def Let_def split_beta FileRepository_save_def
        save_reservations_def)
qed

lemma cancel_persisted_in_memory:
  assumes "keys_ok d" "InMemoryRepository_find_by_id rid d = Some r" "status r \<noteq> ''CANCELLED''"
  shows "cancel_reservation InMemoryRepository rid (d, sent) =
           (True, (dict_set rid (cancel r) d, sent @ [NotifyCancelled (cancel r)])) \<and>
         InMemoryRepository_find_by_id rid (dict_set rid (cancel r) d) = Some (cancel r)"
proof -
  have rid: "reservation_id (cancel r) = rid"
    using assms(1,2) first_with_id_Some
    by (simp add: InMemoryRepository_find_by_id_def dict_get_first cancel_fields)
  show ?thesis
    using assms(2,3)
    by (simp add: rid cancel_reservation_def Let_def InMemoryRepository_save_def
        InMemoryRepository_find_by_id_def dict_get_dict_set)
qed

lemma created_is_stored:
  assumes "s < e"
  shows "InMemoryRepository_find_by_room_and_time rm s e d = [] \<longrightarrow>
           create_reservation InMemoryRepository rid rm un s e pu (d, sent) =
             (Some (Reservation rid rm un s e pu),
              (dict_set rid (Reservation rid rm un s e pu) d,
               sent @ [NotifyConfirmed (Reservation rid rm un s e pu)])) \<and>
           InMemoryRepository_find_by_id rid (dict_set rid (Reservation rid rm un s e pu) d) =
             Some (Reservation rid rm un s e pu)"
    and "FileRepository_find_by_room_and_time rm s e f = [] \<longrightarrow>
           fst (create_reservation (FileRepository True) rid rm un s e pu (f, sent)) =
             Some (Reservation rid rm un s e pu) \<and>
           FileRepository_find_by_id rid
             (fst (snd (create_reservation (FileRepository True) rid rm un s e pu (f, sent)))) =
             Some (reload (Reservation rid rm un s e pu))"
  using assms find_after_save [of "Reservation rid rm un s e pu" f]
  by (simp_all add: create_reservation_def validate_time_range_def check_availability_def
      Let_def split_beta InMemoryRepository_save_def InMemoryRepository_find_by_id_def
      dict_get_dict_set Reservation_id FileRepository_save_def save_reservations_def)

end
